theory Spec2Isabelle
  imports Complex_Main
begin

section \<open>JavaScript values\<close>

text \<open>
  The client is JavaScript: payloads, thrown values and error objects are dynamically
  typed. A number is an IEEE double; here a finite number is the real number the
  double stands for (arithmetic rounds its results, see \<open>fl\<close> below), and the three
  non-finite numbers are constructors of their own. Strings are byte lists
  (UTF-8), objects are association lists read with \<open>map_of\<close>.
\<close>

datatype jsnum = Fin real | NaN | PosInf | NegInf

datatype jsval =
    Undefined
  | Null
  | Bool bool
  | Num jsnum
  | Str string
  | Arr "jsval list"
  | Obj "(string \<times> jsval) list"

text \<open>Truthiness, as \<open>||\<close>, \<open>&&\<close>, \<open>!\<close> and \<open>if\<close> read a value.\<close>

fun truthy :: "jsval \<Rightarrow> bool" where
  "truthy Undefined = False"
| "truthy Null = False"
| "truthy (Bool b) = b"
| "truthy (Num (Fin x)) = (x \<noteq> 0)"
| "truthy (Num NaN) = False"
| "truthy (Num PosInf) = True"
| "truthy (Num NegInf) = True"
| "truthy (Str s) = (s \<noteq> [])"
| "truthy (Arr xs) = True"
| "truthy (Obj kvs) = True"

definition js_or :: "jsval \<Rightarrow> jsval \<Rightarrow> jsval" where
  "js_or a b = (if truthy a then a else b)"

definition js_and :: "jsval \<Rightarrow> jsval \<Rightarrow> jsval" where
  "js_and a b = (if truthy a then b else a)"

text \<open>
  \<open>v.k\<close> for the property names the client reads (\<open>message\<close>, \<open>detail\<close>, \<open>error\<close>,
  \<open>name\<close>, \<open>status\<close>, \<open>details\<close>): an object yields the stored value or \<open>undefined\<close>,
  a primitive or an array has none of them. On \<open>null\<close> and \<open>undefined\<close> the read is
  only reached behind \<open>?.\<close> or \<open>&&\<close>, where it yields \<open>undefined\<close> or is skipped.
\<close>

fun get_prop :: "jsval \<Rightarrow> string \<Rightarrow> jsval" where
  "get_prop (Obj kvs) k = (case map_of kvs k of Some v \<Rightarrow> v | None \<Rightarrow> Undefined)"
| "get_prop v k = Undefined"

text \<open>\<open>typeof e === 'object'\<close>: true of \<open>null\<close>, arrays and objects.\<close>

fun typeof_object :: "jsval \<Rightarrow> bool" where
  "typeof_object Null = True"
| "typeof_object (Arr xs) = True"
| "typeof_object (Obj kvs) = True"
| "typeof_object v = False"

text \<open>\<open>typeof n === 'number'\<close>.\<close>

fun typeof_number :: "jsval \<Rightarrow> bool" where
  "typeof_number (Num n) = True"
| "typeof_number v = False"

text \<open>\<open>haystack.includes(needle)\<close> on strings.\<close>

fun starts_with :: "string \<Rightarrow> string \<Rightarrow> bool" where
  "starts_with [] ys = True"
| "starts_with (x # xs) [] = False"
| "starts_with (x # xs) (y # ys) = (x = y \<and> starts_with xs ys)"

fun str_includes :: "string \<Rightarrow> string \<Rightarrow> bool" where
  "str_includes [] needle = (needle = [])"
| "str_includes (c # cs) needle = (starts_with needle (c # cs) \<or> str_includes cs needle)"

text \<open>The decimal digits of a natural number, as a template literal prints it.\<close>

fun string_of_nat :: "nat \<Rightarrow> string" where
  "string_of_nat n =
     (if n < 10 then [char_of (48 + n)]
      else string_of_nat (n div 10) @ [char_of (48 + n mod 10)])"

declare string_of_nat.simps [simp del]

section \<open>Transport client (api/client.js)\<close>

text \<open>The error object every rejection of \<open>request\<close> carries: \<open>{message, status, details}\<close>.\<close>

record api_error =
  message :: jsval
  status :: jsval
  details :: jsval

text \<open>
  What the client reads of a \<open>fetch\<close> response: \<open>res.ok\<close>, \<open>res.status\<close>, the
  \<open>content-type\<close> header (\<open>null\<close> when absent), and what \<open>res.json()\<close> and
  \<open>res.text()\<close> resolve to (\<open>None\<close> when they reject).
\<close>

record response =
  ok :: bool
  http_status :: nat
  content_type :: jsval
  json_body :: "jsval option"
  text_body :: "string option"

text \<open>
  \<open>normalizeError\<close>, lines 37-45. \<open>String(e)\<close> is the host's; it is the parameter
  \<open>String\<close>.
\<close>

definition normalizeError :: "(jsval \<Rightarrow> string) \<Rightarrow> jsval \<Rightarrow> api_error" where
  "normalizeError String e =
     (if get_prop e ''name'' = Str ''AbortError''
      then \<lparr>message = Str ''Request aborted'', status = Num (Fin 0), details = Null\<rparr>
      else if typeof_object e \<and> truthy (get_prop e ''message'')
      then \<lparr>message = get_prop e ''message'',
            status = js_or (get_prop e ''status'') (Num (Fin 0)),
            details = js_or (get_prop e ''details'') Null\<rparr>
      else \<lparr>message = Str (String e), status = Num (Fin 0), details = Null\<rparr>)"

text \<open>Lines 74-80: the body is parsed by content type; a parse failure leaves \<open>null\<close>.\<close>

definition parsed_body :: "response \<Rightarrow> jsval" where
  "parsed_body res =
     (let isJSON = (case js_or (content_type res) (Str '''') of
                      Str h \<Rightarrow> str_includes h ''application/json'' | _ \<Rightarrow> False)
      in if isJSON then (case json_body res of Some v \<Rightarrow> v | None \<Rightarrow> Null)
         else (case text_body res of Some t \<Rightarrow> Str t | None \<Rightarrow> Null))"

text \<open>Lines 82-88: the error built from a response that is not \<open>ok\<close>.\<close>

definition status_message :: "nat \<Rightarrow> jsval" where
  "status_message n = Str (''Request failed with status '' @ string_of_nat n)"

definition http_error :: "response \<Rightarrow> api_error" where
  "http_error res =
     (let data = parsed_body res in
      \<lparr>message =
         js_or (js_and data
                  (js_or (js_or (get_prop data ''message'') (get_prop data ''detail''))
                         (get_prop data ''error'')))
               (status_message (http_status res)),
       status = Num (Fin (real (http_status res))),
       details = js_or data Null\<rparr>)"

text \<open>
  \<open>request\<close>, lines 50-91, from the outcome of \<open>fetch\<close> on: \<open>Inl e\<close> when \<open>fetch\<close>
  rejects with \<open>e\<close>, \<open>Inr res\<close> when it resolves. The result is \<open>Inl\<close> the thrown
  error object or \<open>Inr\<close> the payload.
\<close>

definition request_outcome ::
  "(jsval \<Rightarrow> string) \<Rightarrow> jsval + response \<Rightarrow> api_error + jsval" where
  "request_outcome String fr =
     (case fr of
        Inl e \<Rightarrow> Inl (normalizeError String e)
      | Inr res \<Rightarrow> if \<not> ok res then Inl (http_error res) else Inr (parsed_body res))"

text \<open>
  What \<open>request\<close> hands to \<open>fetch\<close>: the method, the path with the query parameters
  it was given, and the body (before serialisation). The host supplies \<open>String\<close> and
  \<open>fetch\<close>; the remote service and the network are the state \<open>'v\<close> that \<open>fetch\<close>
  reads and changes.
\<close>

record http_request =
  http_method :: string
  path :: string
  params :: jsval
  body :: jsval

record 'v host =
  String :: "jsval \<Rightarrow> string"
  fetch :: "'v \<Rightarrow> http_request \<Rightarrow> (jsval + response) \<times> 'v"

definition request :: "'v host \<Rightarrow> http_request \<Rightarrow> 'v \<Rightarrow> (api_error + jsval) \<times> 'v" where
  "request h rq v = (let (fr, v') = fetch h v rq in (request_outcome (String h) fr, v'))"

text \<open>The methods of the \<open>api\<close> object, lines 94-133, each named \<open>api_\<close> and the method.\<close>

definition api_listTransactions where
  "api_listTransactions h ps =
     request h \<lparr>http_method = ''GET'', path = ''/transactions'', params = ps, body = Undefined\<rparr>"

definition api_createTransaction where
  "api_createTransaction h payload =
     request h \<lparr>http_method = ''POST'', path = ''/transactions'', params = Undefined, body = payload\<rparr>"

definition api_updateTransaction where
  "api_updateTransaction h tx_id payload =
     request h \<lparr>http_method = ''PUT'', path = ''/transactions/'' @ String h tx_id,
                params = Undefined, body = payload\<rparr>"

definition api_deleteTransaction where
  "api_deleteTransaction h tx_id =
     request h \<lparr>http_method = ''DELETE'', path = ''/transactions/'' @ String h tx_id,
                params = Undefined, body = Undefined\<rparr>"

definition api_listBudgets where
  "api_listBudgets h ps =
     request h \<lparr>http_method = ''GET'', path = ''/budgets'', params = ps, body = Undefined\<rparr>"

definition api_upsertBudget where
  "api_upsertBudget h payload =
     request h \<lparr>http_method = ''POST'', path = ''/budgets'', params = Undefined, body = payload\<rparr>"

definition api_budgetSummary where
  "api_budgetSummary h month =
     request h \<lparr>http_method = ''GET'', path = ''/budgets/summary'',
                params = Obj [(''month'', month)], body = Undefined\<rparr>"

definition api_listGoals where
  "api_listGoals h =
     request h \<lparr>http_method = ''GET'', path = ''/goals'', params = Undefined, body = Undefined\<rparr>"

definition api_createGoal where
  "api_createGoal h payload =
     request h \<lparr>http_method = ''POST'', path = ''/goals'', params = Undefined, body = payload\<rparr>"

definition api_updateGoal where
  "api_updateGoal h goal_id payload =
     request h \<lparr>http_method = ''PUT'', path = ''/goals/'' @ String h goal_id,
                params = Undefined, body = payload\<rparr>"

definition api_deleteGoal where
  "api_deleteGoal h goal_id =
     request h \<lparr>http_method = ''DELETE'', path = ''/goals/'' @ String h goal_id,
                params = Undefined, body = Undefined\<rparr>"

definition api_analyticsSummary where
  "api_analyticsSummary h ps =
     request h \<lparr>http_method = ''GET'', path = ''/analytics/summary'', params = ps, body = Undefined\<rparr>"

definition api_analyticsBehaviors where
  "api_analyticsBehaviors h ps =
     request h \<lparr>http_method = ''GET'', path = ''/analytics/behaviors'', params = ps, body = Undefined\<rparr>"

definition api_overspendingAlerts where
  "api_overspendingAlerts h month =
     request h \<lparr>http_method = ''GET'', path = ''/alerts/overspending'',
                params = Obj [(''month'', month)], body = Undefined\<rparr>"

text \<open>A parameter default (\<open>period = 'month'\<close>) applies to \<open>undefined\<close> only.\<close>

definition default_to :: "jsval \<Rightarrow> jsval \<Rightarrow> jsval" where
  "default_to d x = (if x = Undefined then d else x)"

definition api_savingsAdvice where
  "api_savingsAdvice h period =
     request h \<lparr>http_method = ''GET'', path = ''/advice/savings'',
                params = Obj [(''period'', default_to (Str ''month'') period)],
                body = Undefined\<rparr>"

definition api_goalsPlan where
  "api_goalsPlan h =
     request h \<lparr>http_method = ''GET'', path = ''/advice/goals-plan'',
                params = Undefined, body = Undefined\<rparr>"

definition api_seedDemoLoad where
  "api_seedDemoLoad h payload =
     request h \<lparr>http_method = ''POST'', path = ''/seed/demo/load'',
                params = Undefined, body = payload\<rparr>"

definition api_seedDemoClear where
  "api_seedDemoClear h =
     request h \<lparr>http_method = ''DELETE'', path = ''/seed/demo/clear'',
                params = Undefined, body = Undefined\<rparr>"

section \<open>Domain store (store/useFinanceStore.js)\<close>

text \<open>
  The state object of the store, lines 20-51: \<open>loading\<close> and \<open>errors\<close> are objects
  keyed by strings (a key never written reads \<open>undefined\<close>, here \<open>None\<close>; an error slot
  holding \<open>null\<close> is \<open>Some None\<close>), and one field per cached value.
\<close>

record store =
  loading :: "string \<rightharpoonup> bool"
  errors :: "string \<rightharpoonup> api_error option"
  summary :: jsval
  behaviors :: jsval
  alerts :: jsval
  savingsAdvice :: jsval
  goalsPlan :: jsval
  transactions :: jsval
  budgets :: jsval
  budgetSummary :: jsval
  goals :: jsval

definition slot_keys :: "string list" where
  "slot_keys = [''summary'', ''transactions'', ''budgets'', ''goals'', ''alerts'', ''advice'',
                ''goalsPlan'', ''seed'']"

definition initial_store :: store where
  "initial_store =
     \<lparr>loading = map_of (map (\<lambda>k. (k, False)) slot_keys),
      errors = map_of (map (\<lambda>k. (k, None)) slot_keys),
      summary = Null, behaviors = Null, alerts = Null, savingsAdvice = Null, goalsPlan = Null,
      transactions = Arr [], budgets = Arr [], budgetSummary = Null, goals = Arr []\<rparr>"

text \<open>\<open>_setLoading\<close> and \<open>_setError\<close>, lines 54-57.\<close>

definition setLoading :: "string \<Rightarrow> bool \<Rightarrow> store \<Rightarrow> store" where
  "setLoading key v s = s\<lparr>loading := (loading s)(key \<mapsto> v)\<rparr>"

definition setError :: "string \<Rightarrow> api_error option \<Rightarrow> store \<Rightarrow> store" where
  "setError key v s = s\<lparr>errors := (errors s)(key \<mapsto> v)\<rparr>"

text \<open>
  Every fetch action has the shape of lines 61-75. Between two \<open>await\<close>s an action runs
  without interruption, so it is two steps: the entry, up to the \<open>await\<close> of the
  request, and the settlement, from the outcome of the request (\<open>Inl e\<close> rejected,
  \<open>Inr data\<close> resolved) to the end of \<open>finally\<close>. The action returns the outcome:
  \<open>Inl e\<close> is the error thrown again to the caller.
\<close>

definition fetch_entry :: "string \<Rightarrow> store \<Rightarrow> store" where
  "fetch_entry key s = setError key None (setLoading key True s)"

definition fetch_settle ::
  "string \<Rightarrow> (jsval \<Rightarrow> store \<Rightarrow> store) \<Rightarrow> api_error + jsval \<Rightarrow> store \<Rightarrow> store" where
  "fetch_settle key put r s =
     (case r of
        Inr data \<Rightarrow> setLoading key False (put data s)
      | Inl e \<Rightarrow> setLoading key False (setError key (Some e) s))"

definition fetch_action ::
  "string \<Rightarrow> ('v \<Rightarrow> (api_error + jsval) \<times> 'v) \<Rightarrow> (jsval \<Rightarrow> store \<Rightarrow> store) \<Rightarrow>
   'v \<times> store \<Rightarrow> (api_error + jsval) \<times> 'v \<times> store" where
  "fetch_action key call put = (\<lambda>(v, s).
     let s1 = fetch_entry key s;
         (r, v') = call v
     in (r, v', fetch_settle key put r s1))"

text \<open>The nine fetch actions: the key each passes to the two helpers, the method of
  \<open>api\<close> it awaits and the \<open>set\<close> of its \<open>try\<close> block.\<close>

datatype fetch_call =
    FetchSummary jsval
  | FetchBehaviors jsval
  | FetchOverspendingAlerts jsval
  | FetchSavingsAdvice jsval
  | FetchGoalsPlan
  | FetchTransactions jsval
  | FetchBudgets jsval
  | FetchBudgetSummary jsval
  | FetchGoals

fun fetch_key :: "fetch_call \<Rightarrow> string" where
  "fetch_key (FetchSummary ps) = ''summary''"
| "fetch_key (FetchBehaviors ps) = ''summary''"
| "fetch_key (FetchOverspendingAlerts month) = ''alerts''"
| "fetch_key (FetchSavingsAdvice period) = ''advice''"
| "fetch_key FetchGoalsPlan = ''goalsPlan''"
| "fetch_key (FetchTransactions ps) = ''transactions''"
| "fetch_key (FetchBudgets ps) = ''budgets''"
| "fetch_key (FetchBudgetSummary month) = ''budgets''"
| "fetch_key FetchGoals = ''goals''"

fun fetch_api :: "'v host \<Rightarrow> fetch_call \<Rightarrow> 'v \<Rightarrow> (api_error + jsval) \<times> 'v" where
  "fetch_api h (FetchSummary ps) = api_analyticsSummary h ps"
| "fetch_api h (FetchBehaviors ps) = api_analyticsBehaviors h ps"
| "fetch_api h (FetchOverspendingAlerts month) = api_overspendingAlerts h month"
| "fetch_api h (FetchSavingsAdvice period) =
     api_savingsAdvice h (default_to (Str ''month'') period)"
| "fetch_api h FetchGoalsPlan = api_goalsPlan h"
| "fetch_api h (FetchTransactions ps) = api_listTransactions h ps"
| "fetch_api h (FetchBudgets ps) = api_listBudgets h ps"
| "fetch_api h (FetchBudgetSummary month) = api_budgetSummary h month"
| "fetch_api h FetchGoals = api_listGoals h"

fun fetch_put :: "fetch_call \<Rightarrow> jsval \<Rightarrow> store \<Rightarrow> store" where
  "fetch_put (FetchSummary ps) data s = s\<lparr>summary := data\<rparr>"
| "fetch_put (FetchBehaviors ps) data s = s\<lparr>behaviors := data\<rparr>"
| "fetch_put (FetchOverspendingAlerts month) data s = s\<lparr>alerts := data\<rparr>"
| "fetch_put (FetchSavingsAdvice period) data s = s\<lparr>savingsAdvice := data\<rparr>"
| "fetch_put FetchGoalsPlan data s = s\<lparr>goalsPlan := data\<rparr>"
| "fetch_put (FetchTransactions ps) data s = s\<lparr>transactions := js_or data (Arr [])\<rparr>"
| "fetch_put (FetchBudgets ps) data s = s\<lparr>budgets := js_or data (Arr [])\<rparr>"
| "fetch_put (FetchBudgetSummary month) data s = s\<lparr>budgetSummary := data\<rparr>"
| "fetch_put FetchGoals data s = s\<lparr>goals := js_or data (Arr [])\<rparr>"

definition run_fetch ::
  "'v host \<Rightarrow> fetch_call \<Rightarrow> 'v \<times> store \<Rightarrow> (api_error + jsval) \<times> 'v \<times> store" where
  "run_fetch h c = fetch_action (fetch_key c) (fetch_api h c) (fetch_put c)"

definition fetchSummary where "fetchSummary h ps = run_fetch h (FetchSummary ps)"
definition fetchBehaviors where "fetchBehaviors h ps = run_fetch h (FetchBehaviors ps)"
definition fetchOverspendingAlerts where
  "fetchOverspendingAlerts h month = run_fetch h (FetchOverspendingAlerts month)"
definition fetchSavingsAdvice where
  "fetchSavingsAdvice h period = run_fetch h (FetchSavingsAdvice period)"
definition fetchGoalsPlan where "fetchGoalsPlan h = run_fetch h FetchGoalsPlan"
definition fetchTransactions where "fetchTransactions h ps = run_fetch h (FetchTransactions ps)"
definition fetchBudgets where "fetchBudgets h ps = run_fetch h (FetchBudgets ps)"
definition fetchBudgetSummary where
  "fetchBudgetSummary h month = run_fetch h (FetchBudgetSummary month)"
definition fetchGoals where "fetchGoals h = run_fetch h FetchGoals"

text \<open>
  The cached value a fetch action writes is the field of the state object named after
  its domain; \<open>slice\<close> reads a field by that name.
\<close>

fun fetch_domain :: "fetch_call \<Rightarrow> string" where
  "fetch_domain (FetchSummary ps) = ''summary''"
| "fetch_domain (FetchBehaviors ps) = ''behaviors''"
| "fetch_domain (FetchOverspendingAlerts month) = ''alerts''"
| "fetch_domain (FetchSavingsAdvice period) = ''savingsAdvice''"
| "fetch_domain FetchGoalsPlan = ''goalsPlan''"
| "fetch_domain (FetchTransactions ps) = ''transactions''"
| "fetch_domain (FetchBudgets ps) = ''budgets''"
| "fetch_domain (FetchBudgetSummary month) = ''budgetSummary''"
| "fetch_domain FetchGoals = ''goals''"

definition slice :: "string \<Rightarrow> store \<Rightarrow> jsval" where
  "slice n s =
     (if n = ''summary'' then summary s
      else if n = ''behaviors'' then behaviors s
      else if n = ''alerts'' then alerts s
      else if n = ''savingsAdvice'' then savingsAdvice s
      else if n = ''goalsPlan'' then goalsPlan s
      else if n = ''transactions'' then transactions s
      else if n = ''budgets'' then budgets s
      else if n = ''budgetSummary'' then budgetSummary s
      else if n = ''goals'' then goals s
      else Undefined)"

text \<open>
  The write actions, lines 171-193 and 256-277: no \<open>try\<close>, no use of the two helpers.
  A rejected \<open>await\<close> leaves the action at once; after both requests have resolved the
  collection is set to the list payload.
\<close>

definition write_then_refetch ::
  "('v \<Rightarrow> (api_error + jsval) \<times> 'v) \<Rightarrow> ('v \<Rightarrow> (api_error + jsval) \<times> 'v) \<Rightarrow>
   (jsval \<Rightarrow> store \<Rightarrow> store) \<Rightarrow> (jsval \<Rightarrow> jsval) \<Rightarrow>
   'v \<times> store \<Rightarrow> (api_error + jsval) \<times> 'v \<times> store" where
  "write_then_refetch mutate relist put ret = (\<lambda>(v, s).
     let (r, v1) = mutate v in
     case r of
       Inl e \<Rightarrow> (Inl e, v1, s)
     | Inr res \<Rightarrow>
         (let (r2, v2) = relist v1 in
          case r2 of
            Inl e \<Rightarrow> (Inl e, v2, s)
          | Inr items \<Rightarrow> (Inr (ret res), v2, put items s)))"

definition set_transactions :: "jsval \<Rightarrow> store \<Rightarrow> store" where
  "set_transactions items s = s\<lparr>transactions := js_or items (Arr [])\<rparr>"

definition set_goals :: "jsval \<Rightarrow> store \<Rightarrow> store" where
  "set_goals items s = s\<lparr>goals := js_or items (Arr [])\<rparr>"

definition createTx where
  "createTx h payload =
     write_then_refetch (api_createTransaction h payload) (api_listTransactions h Undefined)
       set_transactions (\<lambda>res. res)"

definition updateTx where
  "updateTx h tx_id payload =
     write_then_refetch (api_updateTransaction h tx_id payload) (api_listTransactions h Undefined)
       set_transactions (\<lambda>res. res)"

definition deleteTx where
  "deleteTx h tx_id =
     write_then_refetch (api_deleteTransaction h tx_id) (api_listTransactions h Undefined)
       set_transactions (\<lambda>res. Bool True)"

definition createGoal where
  "createGoal h payload =
     write_then_refetch (api_createGoal h payload) (api_listGoals h) set_goals (\<lambda>res. res)"

definition updateGoal where
  "updateGoal h goal_id payload =
     write_then_refetch (api_updateGoal h goal_id payload) (api_listGoals h) set_goals
       (\<lambda>res. res)"

definition deleteGoal where
  "deleteGoal h goal_id =
     write_then_refetch (api_deleteGoal h goal_id) (api_listGoals h) set_goals
       (\<lambda>res. Bool True)"

text \<open>\<open>upsertBudget\<close>, lines 214-218: the request, and its result returned.\<close>

definition upsertBudget ::
  "'v host \<Rightarrow> jsval \<Rightarrow> 'v \<times> store \<Rightarrow> (api_error + jsval) \<times> 'v \<times> store" where
  "upsertBudget h payload = (\<lambda>(v, s).
     let (r, v1) = api_upsertBudget h payload v in (r, v1, s))"

datatype write_call =
    CreateTx jsval
  | UpdateTx jsval jsval
  | DeleteTx jsval
  | CreateGoal jsval
  | UpdateGoal jsval jsval
  | DeleteGoal jsval
  | UpsertBudget jsval

fun run_write ::
  "'v host \<Rightarrow> write_call \<Rightarrow> 'v \<times> store \<Rightarrow> (api_error + jsval) \<times> 'v \<times> store" where
  "run_write h (CreateTx payload) = createTx h payload"
| "run_write h (UpdateTx tx_id payload) = updateTx h tx_id payload"
| "run_write h (DeleteTx tx_id) = deleteTx h tx_id"
| "run_write h (CreateGoal payload) = createGoal h payload"
| "run_write h (UpdateGoal goal_id payload) = updateGoal h goal_id payload"
| "run_write h (DeleteGoal goal_id) = deleteGoal h goal_id"
| "run_write h (UpsertBudget payload) = upsertBudget h payload"

text \<open>
  The seed actions, lines 281-317. After a successful load the two refreshes are started
  one after the other (each runs to its \<open>await\<close>) and \<open>Promise.allSettled\<close> waits for
  both, whatever their outcome; they write different fields, so the order in which they
  settle does not show in the state.
\<close>

definition seed_default :: jsval where
  "seed_default = Obj [(''months_back'', Num (Fin 6)), (''approx_total'', Num (Fin 500)),
                       (''random_seed'', Num (Fin 42))]"

definition seedDemoLoad ::
  "'v host \<Rightarrow> jsval \<Rightarrow> 'v \<times> store \<Rightarrow> (api_error + jsval) \<times> 'v \<times> store" where
  "seedDemoLoad h payload = (\<lambda>(v, s).
     let s1 = fetch_entry ''seed'' s;
         (r, v1) = api_seedDemoLoad h (default_to seed_default payload) v
     in case r of
          Inl e \<Rightarrow> (Inl e, v1, setLoading ''seed'' False (setError ''seed'' (Some e) s1))
        | Inr res \<Rightarrow>
            (let s2 = fetch_entry ''transactions'' s1;
                 (rt, v2) = api_listTransactions h Undefined v1;
                 s3 = fetch_entry ''goals'' s2;
                 (rg, v3) = api_listGoals h v2;
                 s4 = fetch_settle ''transactions'' (fetch_put (FetchTransactions Undefined)) rt s3;
                 s5 = fetch_settle ''goals'' (fetch_put FetchGoals) rg s4
             in (Inr res, v3, setLoading ''seed'' False s5)))"

definition seedDemoClear ::
  "'v host \<Rightarrow> 'v \<times> store \<Rightarrow> (api_error + jsval) \<times> 'v \<times> store" where
  "seedDemoClear h = (\<lambda>(v, s).
     let s1 = fetch_entry ''seed'' s;
         (r, v1) = api_seedDemoClear h v
     in case r of
          Inl e \<Rightarrow> (Inl e, v1, setLoading ''seed'' False (setError ''seed'' (Some e) s1))
        | Inr res \<Rightarrow> (Inr res, v1, setLoading ''seed'' False (s1\<lparr>transactions := Arr []\<rparr>)))"

text \<open>
  Actions overlap: while one waits for its request, steps of others run. A history of
  the store is a list of steps, in the order they ran: the entry of a fetch or seed
  action, its settlement with the outcome of its request, the \<open>set\<close> that ends a write
  action. Any list is allowed, also one no run produces.
\<close>

datatype event =
    FetchBegin fetch_call
  | FetchSettle fetch_call "api_error + jsval"
  | WriteTransactions jsval
  | WriteGoals jsval
  | SeedBegin
  | SeedFailed api_error
  | SeedLoadDone
  | SeedClearDone

fun apply_event :: "event \<Rightarrow> store \<Rightarrow> store" where
  "apply_event (FetchBegin c) s = fetch_entry (fetch_key c) s"
| "apply_event (FetchSettle c r) s = fetch_settle (fetch_key c) (fetch_put c) r s"
| "apply_event (WriteTransactions items) s = set_transactions items s"
| "apply_event (WriteGoals items) s = set_goals items s"
| "apply_event SeedBegin s = fetch_entry ''seed'' s"
| "apply_event (SeedFailed e) s = setLoading ''seed'' False (setError ''seed'' (Some e) s)"
| "apply_event SeedLoadDone s = setLoading ''seed'' False s"
| "apply_event SeedClearDone s = setLoading ''seed'' False (s\<lparr>transactions := Arr []\<rparr>)"

definition run_events :: "event list \<Rightarrow> store \<Rightarrow> store" where
  "run_events es s = fold apply_event es s"

text \<open>
  Within a step the store changes by single calls of \<open>set\<close>, and each call publishes the
  state it makes to the subscribers of the store: \<open>_setLoading\<close> and \<open>_setError\<close> are one
  call each (lines 54-57), and so is the \<open>set\<close> of a slice. The calls of a step, in the
  order of the code: the entry is \<open>_setLoading(key, true)\<close>, then \<open>_setError(key, null)\<close>;
  a resolved settlement is the \<open>set\<close> of the slice in \<open>try\<close>, then \<open>_setLoading(key,
  false)\<close> in \<open>finally\<close>; a rejected one is \<open>_setError(key, e)\<close> in \<open>catch\<close>, then
  \<open>_setLoading(key, false)\<close> in \<open>finally\<close>.
\<close>

datatype set_call =
    SetLoading string bool
  | SetError string "api_error option"
  | SetSlice fetch_call jsval
  | SetTransactions jsval
  | SetGoals jsval
  | ClearTransactions

fun apply_set :: "set_call \<Rightarrow> store \<Rightarrow> store" where
  "apply_set (SetLoading key v) s = setLoading key v s"
| "apply_set (SetError key v) s = setError key v s"
| "apply_set (SetSlice c d) s = fetch_put c d s"
| "apply_set (SetTransactions items) s = set_transactions items s"
| "apply_set (SetGoals items) s = set_goals items s"
| "apply_set ClearTransactions s = s\<lparr>transactions := Arr []\<rparr>"

fun sets_of :: "event \<Rightarrow> set_call list" where
  "sets_of (FetchBegin c) = [SetLoading (fetch_key c) True, SetError (fetch_key c) None]"
| "sets_of (FetchSettle c (Inr d)) = [SetSlice c d, SetLoading (fetch_key c) False]"
| "sets_of (FetchSettle c (Inl e)) =
     [SetError (fetch_key c) (Some e), SetLoading (fetch_key c) False]"
| "sets_of (WriteTransactions items) = [SetTransactions items]"
| "sets_of (WriteGoals items) = [SetGoals items]"
| "sets_of SeedBegin = [SetLoading ''seed'' True, SetError ''seed'' None]"
| "sets_of (SeedFailed e) = [SetError ''seed'' (Some e), SetLoading ''seed'' False]"
| "sets_of SeedLoadDone = [SetLoading ''seed'' False]"
| "sets_of SeedClearDone = [ClearTransactions, SetLoading ''seed'' False]"

text \<open>The states a history publishes, in order, each with the call that made it.\<close>

fun set_trace :: "set_call list \<Rightarrow> store \<Rightarrow> (set_call \<times> store) list" where
  "set_trace [] s = []"
| "set_trace (c # cs) s = (c, apply_set c s) # set_trace cs (apply_set c s)"

definition published :: "event list \<Rightarrow> store \<Rightarrow> (set_call \<times> store) list" where
  "published es s = set_trace (concat (map sets_of es)) s"

text \<open>
  Hosts for concrete runs. \<open>replay\<close> answers the requests from a script, in order, and
  keeps the log of the requests it was given; with the script used up, \<open>fetch\<close> rejects
  as on a network failure.
\<close>

definition network_failure :: jsval where
  "network_failure = Obj [(''name'', Str ''TypeError''), (''message'', Str ''Failed to fetch'')]"

definition sample_String :: "jsval \<Rightarrow> string" where
  "sample_String e = (case e of Str t \<Rightarrow> t | _ \<Rightarrow> ''[object Object]'')"

definition replay :: "(http_request list \<times> (jsval + response) list) host" where
  "replay =
     \<lparr>String = sample_String,
      fetch = (\<lambda>(seen, script) rq.
        case script of
          [] \<Rightarrow> (Inl network_failure, (seen @ [rq], []))
        | x # xs \<Rightarrow> (x, (seen @ [rq], xs)))\<rparr>"

definition json_response :: "nat \<Rightarrow> jsval \<Rightarrow> response" where
  "json_response code payload =
     \<lparr>ok = (200 \<le> code \<and> code \<le> 299), http_status = code,
      content_type = Str ''application/json'', json_body = Some payload, text_body = None\<rparr>"

subsection \<open>Tables and sample data for the store\<close>

text \<open>
  Tables for stating what a write action does: the request of its mutating call, the
  collection it belongs to, the list request of a collection with no parameters, and
  what the action returns from the result of the mutating call.
\<close>

fun write_request :: "'v host \<Rightarrow> write_call \<Rightarrow> http_request" where
  "write_request h (CreateTx payload) =
     \<lparr>http_method = ''POST'', path = ''/transactions'', params = Undefined, body = payload\<rparr>"
| "write_request h (UpdateTx tx_id payload) =
     \<lparr>http_method = ''PUT'', path = ''/transactions/'' @ String h tx_id, params = Undefined,
      body = payload\<rparr>"
| "write_request h (DeleteTx tx_id) =
     \<lparr>http_method = ''DELETE'', path = ''/transactions/'' @ String h tx_id, params = Undefined,
      body = Undefined\<rparr>"
| "write_request h (CreateGoal payload) =
     \<lparr>http_method = ''POST'', path = ''/goals'', params = Undefined, body = payload\<rparr>"
| "write_request h (UpdateGoal goal_id payload) =
     \<lparr>http_method = ''PUT'', path = ''/goals/'' @ String h goal_id, params = Undefined,
      body = payload\<rparr>"
| "write_request h (DeleteGoal goal_id) =
     \<lparr>http_method = ''DELETE'', path = ''/goals/'' @ String h goal_id, params = Undefined,
      body = Undefined\<rparr>"
| "write_request h (UpsertBudget payload) =
     \<lparr>http_method = ''POST'', path = ''/budgets'', params = Undefined, body = payload\<rparr>"

fun owning_collection :: "write_call \<Rightarrow> string" where
  "owning_collection (CreateTx payload) = ''transactions''"
| "owning_collection (UpdateTx tx_id payload) = ''transactions''"
| "owning_collection (DeleteTx tx_id) = ''transactions''"
| "owning_collection (CreateGoal payload) = ''goals''"
| "owning_collection (UpdateGoal goal_id payload) = ''goals''"
| "owning_collection (DeleteGoal goal_id) = ''goals''"
| "owning_collection (UpsertBudget payload) = ''budgets''"

fun is_upsert :: "write_call \<Rightarrow> bool" where
  "is_upsert (UpsertBudget payload) = True"
| "is_upsert w = False"

fun returned :: "write_call \<Rightarrow> jsval \<Rightarrow> jsval" where
  "returned (DeleteTx tx_id) res = Bool True"
| "returned (DeleteGoal goal_id) res = Bool True"
| "returned w res = res"

definition list_request :: "string \<Rightarrow> http_request" where
  "list_request coll =
     \<lparr>http_method = ''GET'', path = ''/'' @ coll, params = Undefined, body = Undefined\<rparr>"

text \<open>The relation between the two flags of a slot that the store keeps.\<close>

definition flags_exclusive :: "store \<Rightarrow> bool" where
  "flags_exclusive s = (\<forall>k. loading s k = Some True \<longrightarrow> errors s k = Some None)"

text \<open>
  The calls that can publish a state with the flag of the slot \<open>k\<close> up and an error in
  it: the \<open>_setLoading(k, true)\<close> of an entry and the \<open>_setError(k, e)\<close> of a \<open>catch\<close>.
\<close>

fun transient :: "string \<Rightarrow> set_call \<Rightarrow> bool" where
  "transient k (SetLoading key v) = (key = k \<and> v)"
| "transient k (SetError key v) = (key = k \<and> v \<noteq> None)"
| "transient k c = False"

text \<open>Payloads, states and errors of the concrete runs below.\<close>

definition created_tx :: jsval where
  "created_tx = Obj [(''id'', Num (Fin 1)), (''amount'', Num (Fin 12))]"

definition stale_store :: store where
  "stale_store = initial_store\<lparr>transactions := Arr [Str ''stale''], budgets := Arr [Str ''stale'']\<rparr>"

definition db_down :: jsval where
  "db_down = Obj [(''message'', Str ''db down'')]"

definition db_down_error :: api_error where
  "db_down_error = \<lparr>message = Str ''db down'', status = Num (Fin 500), details = db_down\<rparr>"

definition fetch_failed_error :: api_error where
  "fetch_failed_error =
     \<lparr>message = Str ''Failed to fetch'', status = Num (Fin 0), details = Null\<rparr>"

section \<open>Derived metrics (the pages)\<close>

subsection \<open>Numbers\<close>

text \<open>
  A finite number of the program is an IEEE 754 double, here the real number it stands
  for. \<open>fl x\<close> is the double a real result is rounded to: \<open>ulp x\<close> is the spacing of the
  doubles around \<open>x\<close> (53 significant bits, the exponent not below that of the
  subnormal numbers), \<open>rne\<close> rounds to the nearest integer, a tie to the even one, and a
  result of magnitude \<open>2^1024\<close> or more is infinite.
\<close>

definition rne :: "real \<Rightarrow> int" where
  "rne m =
     (let f = \<lfloor>m\<rfloor>; d = m - of_int f
      in if d < 1 / 2 then f else if 1 / 2 < d then f + 1 else if even f then f else f + 1)"

definition ulp :: "real \<Rightarrow> real" where
  "ulp x = 2 powr of_int (max \<lfloor>log 2 \<bar>x\<bar>\<rfloor> (- 1022) - 52)"

definition rnd :: "real \<Rightarrow> real" where
  "rnd x = of_int (rne (x / ulp x)) * ulp x"

definition fl :: "real \<Rightarrow> jsnum" where
  "fl x =
     (if x = 0 then Fin 0
      else if 2 ^ 1024 \<le> \<bar>rnd x\<bar> then (if 0 < x then PosInf else NegInf)
      else Fin (rnd x))"

text \<open>
  Comparison and arithmetic on numbers as the pages use them. A comparison with \<open>NaN\<close>
  is false; a quotient and a product of finite numbers are rounded. The model has one
  zero, so a quotient by zero is taken by the sign of the dividend alone; the pages
  divide by a number they have tested to be positive.
\<close>

fun js_less :: "jsnum \<Rightarrow> jsnum \<Rightarrow> bool" where
  "js_less (Fin x) (Fin y) = (x < y)"
| "js_less NaN b = False"
| "js_less a NaN = False"
| "js_less NegInf NegInf = False"
| "js_less NegInf b = True"
| "js_less a NegInf = False"
| "js_less PosInf b = False"
| "js_less a PosInf = True"

definition js_le :: "jsnum \<Rightarrow> jsnum \<Rightarrow> bool" where
  "js_le a b = (a \<noteq> NaN \<and> b \<noteq> NaN \<and> (a = b \<or> js_less a b))"

definition Math_min :: "jsnum \<Rightarrow> jsnum \<Rightarrow> jsnum" where
  "Math_min a b = (if a = NaN \<or> b = NaN then NaN else if js_less b a then b else a)"

definition Math_max :: "jsnum \<Rightarrow> jsnum \<Rightarrow> jsnum" where
  "Math_max a b = (if a = NaN \<or> b = NaN then NaN else if js_less a b then b else a)"

fun js_div :: "jsnum \<Rightarrow> jsnum \<Rightarrow> jsnum" where
  "js_div (Fin x) (Fin y) =
     (if y = 0 then (if x = 0 then NaN else if 0 < x then PosInf else NegInf)
      else fl (x / y))"
| "js_div NaN b = NaN"
| "js_div a NaN = NaN"
| "js_div (Fin x) b = Fin 0"
| "js_div PosInf (Fin y) = (if y < 0 then NegInf else PosInf)"
| "js_div NegInf (Fin y) = (if y < 0 then PosInf else NegInf)"
| "js_div a b = NaN"

fun js_mul :: "jsnum \<Rightarrow> jsnum \<Rightarrow> jsnum" where
  "js_mul (Fin x) (Fin y) = fl (x * y)"
| "js_mul NaN b = NaN"
| "js_mul a NaN = NaN"
| "js_mul (Fin x) PosInf = (if x = 0 then NaN else if 0 < x then PosInf else NegInf)"
| "js_mul (Fin x) NegInf = (if x = 0 then NaN else if 0 < x then NegInf else PosInf)"
| "js_mul PosInf (Fin y) = (if y = 0 then NaN else if 0 < y then PosInf else NegInf)"
| "js_mul NegInf (Fin y) = (if y = 0 then NaN else if 0 < y then NegInf else PosInf)"
| "js_mul PosInf PosInf = PosInf"
| "js_mul NegInf NegInf = PosInf"
| "js_mul a b = NegInf"

text \<open>
  \<open>Number(v)\<close>. What a string, an array or an object converts to is the host's parsing,
  the parameter \<open>coerce\<close>.
\<close>

fun js_Number :: "(jsval \<Rightarrow> jsnum) \<Rightarrow> jsval \<Rightarrow> jsnum" where
  "js_Number coerce Undefined = NaN"
| "js_Number coerce Null = Fin 0"
| "js_Number coerce (Bool b) = Fin (if b then 1 else 0)"
| "js_Number coerce (Num n) = n"
| "js_Number coerce v = coerce v"

text \<open>
  \<open>Number(x.toFixed(1))\<close>: \<open>toFixed\<close> takes the sign off, picks the integer \<open>n\<close> with
  \<open>n / 10\<close> nearest to the exact value of the double, the larger of two, and prints \<open>n\<close>
  with one decimal; \<open>Number\<close> reads the decimal back as the nearest double. From
  \<open>10^21\<close> on \<open>toFixed\<close> prints the number as \<open>String\<close> does, which reads back as itself.
\<close>

definition round_tenth :: "real \<Rightarrow> real" where
  "round_tenth x = sgn x * of_int \<lfloor>\<bar>x\<bar> * 10 + 1 / 2\<rfloor> / 10"

fun toFixed1_Number :: "jsnum \<Rightarrow> jsnum" where
  "toFixed1_Number (Fin x) = (if 10 ^ 21 \<le> \<bar>x\<bar> then Fin x else fl (round_tenth x))"
| "toFixed1_Number n = n"

subsection \<open>Budgets page: utilisation tier\<close>

text \<open>Lines 151-152 of the Budgets page, for a row of the budget summary.\<close>

definition row_pct :: "(jsval \<Rightarrow> jsnum) \<Rightarrow> jsval \<Rightarrow> jsnum" where
  "row_pct coerce row = js_Number coerce (js_or (get_prop row ''utilization_pct'') (Num (Fin 0)))"

definition tone :: "jsnum \<Rightarrow> string" where
  "tone pct =
     (if js_less (Fin 90) pct then ''danger''
      else if js_le (Fin 70) pct then ''warn''
      else ''success'')"

subsection \<open>Goals page: progress and the join with the plan\<close>

text \<open>\<open>computeProgress\<close>, Goals.js lines 581-587; the result is the \<open>pct\<close> of the object
  returned.\<close>

definition computeProgress :: "(jsval \<Rightarrow> jsnum) \<Rightarrow> jsval \<Rightarrow> jsval \<Rightarrow> jsnum" where
  "computeProgress coerce current target =
     (let c = js_Number coerce (js_or (default_to (Num (Fin 0)) current) (Num (Fin 0)));
          t = js_Number coerce (js_or (default_to (Num (Fin 0)) target) (Num (Fin 0)))
      in if js_le t (Fin 0) then Fin 0
         else toFixed1_Number
                (Math_max (Fin 0) (Math_min (Fin 100) (js_mul (js_div c t) (Fin 100)))))"

text \<open>The clamping of the specification, \<open>clamp(x, lo, hi)\<close>.\<close>

definition clamp :: "real \<Rightarrow> real \<Rightarrow> real \<Rightarrow> real" where
  "clamp x lo hi = (if x < lo then lo else if hi < x then hi else x)"

text \<open>
  A goal and an item of the plan, as the page reads them from the store, and a goal with
  its \<open>plan\<close> (\<open>null\<close> is \<open>None\<close>) as \<open>goalsWithPlan\<close> builds it.
\<close>

record goal =
  g_id :: jsval
  g_name :: string
  target_amount :: jsval
  current_amount :: jsval
  target_date :: jsval

record plan_item =
  p_id :: jsval
  p_name :: string
  remaining :: jsval
  months_to_target :: jsval
  projected_completion :: jsval
  p_status :: jsval

record goal_with_plan = goal +
  plan :: "plan_item option"

text \<open>
  The keys of a JavaScript \<open>Map\<close> are compared by SameValueZero: two primitive values
  are the same key when they are the same value (\<open>NaN\<close> is the same as \<open>NaN\<close>), an
  object or an array is the same key only as itself. The ids of the goals and the ids
  of the plan come from two response bodies, each parsed on its own, so an object or an
  array among them is never the same key as another id, whatever it holds.
\<close>

fun is_primitive :: "jsval \<Rightarrow> bool" where
  "is_primitive (Arr xs) = False"
| "is_primitive (Obj kvs) = False"
| "is_primitive v = True"

definition same_value_zero :: "jsval \<Rightarrow> jsval \<Rightarrow> bool" where
  "same_value_zero a b = (is_primitive a \<and> a = b)"

text \<open>
  A \<open>Map\<close> is the list of its entries in the order of insertion: \<open>set\<close> replaces the value
  of the entry with the same key, or adds an entry at the end; \<open>get\<close> reads the entry
  with the same key (\<open>undefined\<close> is \<open>None\<close>).
\<close>

fun Map_set :: "(jsval \<times> 'v) list \<Rightarrow> jsval \<Rightarrow> 'v \<Rightarrow> (jsval \<times> 'v) list" where
  "Map_set [] k v = [(k, v)]"
| "Map_set ((k', v') # m) k v =
     (if same_value_zero k' k then (k', v) # m else (k', v') # Map_set m k v)"

fun Map_get :: "(jsval \<times> 'v) list \<Rightarrow> jsval \<Rightarrow> 'v option" where
  "Map_get [] k = None"
| "Map_get ((k', v') # m) k = (if same_value_zero k' k then Some v' else Map_get m k)"

text \<open>
  \<open>goalsWithPlan\<close>, Goals.js lines 41-54. \<open>planGoals\<close> is \<open>goalsPlan?.goals || []\<close>: the
  payload is \<open>None\<close> before the plan is loaded or when it has no \<open>goals\<close>. \<open>planById\<close> is
  filled by \<open>planGoals.forEach((g) => planById.set(g.id, g))\<close>, in the order of the plan,
  and each goal gets \<open>plan: planById.get(g.id) || null\<close>; an item of the plan is an
  object, so \<open>|| null\<close> replaces only \<open>undefined\<close>.
\<close>

definition planGoals_of :: "plan_item list option \<Rightarrow> plan_item list" where
  "planGoals_of payload = (case payload of None \<Rightarrow> [] | Some items \<Rightarrow> items)"

definition planById :: "plan_item list \<Rightarrow> (jsval \<times> plan_item) list" where
  "planById items = foldl (\<lambda>m g. Map_set m (p_id g) g) [] items"

definition goalsWithPlan :: "goal list \<Rightarrow> plan_item list option \<Rightarrow> goal_with_plan list" where
  "goalsWithPlan gs payload =
     (if gs = [] then []
      else map (\<lambda>g. goal.extend g
                  \<lparr>plan = Map_get (planById (planGoals_of payload)) (g_id g)\<rparr>) gs)"

subsection \<open>Formatting\<close>

text \<open>
  The host's number formatting: \<open>Intl.NumberFormat(undefined, {style: 'currency',
  currency}).format\<close> (\<open>None\<close> when it throws) and what \<open>String\<close> prints for a finite
  number. The placeholder is the em dash, three bytes in UTF-8; the Transactions
  page has seven other bytes in its place.
\<close>

record format_host =
  intl_currency :: "string \<Rightarrow> jsnum \<Rightarrow> string option"
  number_string :: "real \<Rightarrow> string"

definition em_dash :: string where
  "em_dash = [CHR 0xE2, CHR 0x80, CHR 0x94]"

definition Transactions_placeholder :: string where
  "Transactions_placeholder = [CHR 0xE2, CHR 0x80, CHR 0x9A, CHR 0xC3, CHR 0x84, CHR 0xC3, CHR 0xAE]"

text \<open>
  \<open>x.toFixed(d)\<close>. Below \<open>10^21\<close>: the sign is taken off, \<open>n\<close> is the integer with
  \<open>n / 10^d\<close> nearest to the number, the larger of two; its decimal digits are filled
  with zeros on the left up to \<open>d + 1\<close> digits and the point is put before the last \<open>d\<close>.
  From \<open>10^21\<close> on the result is what \<open>String\<close> prints.
\<close>

definition digit_char :: "nat \<Rightarrow> char" where
  "digit_char n = ''0123456789'' ! (n mod 10)"

fun decimal :: "nat \<Rightarrow> string" where
  "decimal n = (if n < 10 then [digit_char n] else decimal (n div 10) @ [digit_char n])"

declare decimal.simps [simp del]

definition fixed_point :: "nat \<Rightarrow> real \<Rightarrow> string" where
  "fixed_point d x =
     (let n = nat \<lfloor>\<bar>x\<bar> * 10 ^ d + 1 / 2\<rfloor>;
          ds = decimal n;
          zs = replicate (d + 1 - length ds) (CHR ''0'') @ ds;
          k = length zs - d
      in (if x < 0 then ''-'' else [])
         @ take k zs @ (if d = 0 then [] else ''.'' @ drop k zs))"

fun js_toFixed :: "format_host \<Rightarrow> nat \<Rightarrow> jsnum \<Rightarrow> string" where
  "js_toFixed fh d (Fin x) = (if 10 ^ 21 \<le> \<bar>x\<bar> then number_string fh x else fixed_point d x)"
| "js_toFixed fh d NaN = ''NaN''"
| "js_toFixed fh d PosInf = ''Infinity''"
| "js_toFixed fh d NegInf = ''-Infinity''"

definition currency_or_dollars :: "format_host \<Rightarrow> string \<Rightarrow> jsnum \<Rightarrow> string" where
  "currency_or_dollars fh currency x =
     (case intl_currency fh currency x of
        Some t \<Rightarrow> t
      | None \<Rightarrow> ''$'' @ js_toFixed fh 2 x)"

text \<open>\<open>formatCurrency\<close> of the Goals page (lines 568-575) and of the Budgets page.\<close>

definition Goals_formatCurrency :: "format_host \<Rightarrow> jsval \<Rightarrow> string \<Rightarrow> string" where
  "Goals_formatCurrency fh n currency =
     (case n of
        Num x \<Rightarrow> if x = NaN then em_dash else currency_or_dollars fh currency x
      | _ \<Rightarrow> em_dash)"

definition Budgets_formatCurrency :: "format_host \<Rightarrow> jsval \<Rightarrow> string \<Rightarrow> string" where
  "Budgets_formatCurrency fh n currency =
     (case n of
        Num x \<Rightarrow> if x = NaN then em_dash else currency_or_dollars fh currency x
      | _ \<Rightarrow> em_dash)"

text \<open>\<open>formatCurrency\<close> of the Transactions page (lines 572-579).\<close>

definition Transactions_formatCurrency :: "format_host \<Rightarrow> jsval \<Rightarrow> string \<Rightarrow> string" where
  "Transactions_formatCurrency fh n currency =
     (case n of
        Num x \<Rightarrow> if x = NaN then Transactions_placeholder else currency_or_dollars fh currency x
      | _ \<Rightarrow> Transactions_placeholder)"

text \<open>\<open>formatCurrency\<close> of the Dashboard (lines 595-602): the test is \<open>typeof\<close> alone.\<close>

definition Dashboard_formatCurrency :: "format_host \<Rightarrow> jsval \<Rightarrow> string \<Rightarrow> string" where
  "Dashboard_formatCurrency fh n currency =
     (case n of
        Num x \<Rightarrow> currency_or_dollars fh currency x
      | _ \<Rightarrow> em_dash)"

text \<open>\<open>formatCurrency\<close> of the Insights page: the value is converted with \<open>Number\<close> first.\<close>

definition Insights_formatCurrency ::
  "format_host \<Rightarrow> (jsval \<Rightarrow> jsnum) \<Rightarrow> jsval \<Rightarrow> string \<Rightarrow> string" where
  "Insights_formatCurrency fh coerce n currency =
     (let num = js_Number coerce n
      in if num = NaN then em_dash else currency_or_dollars fh currency num)"

text \<open>\<open>formatPercent\<close> of the Budgets page and of the Dashboard: a number, or the
  placeholder.\<close>

definition Budgets_formatPercent :: "jsval \<Rightarrow> jsval" where
  "Budgets_formatPercent n =
     (case n of
        Num x \<Rightarrow> if x = NaN then Str em_dash else Num (toFixed1_Number x)
      | _ \<Rightarrow> Str em_dash)"

definition Dashboard_formatPercent :: "jsval \<Rightarrow> jsval" where
  "Dashboard_formatPercent n =
     (case n of
        Num x \<Rightarrow> if x = NaN then Str em_dash else Num (toFixed1_Number x)
      | _ \<Rightarrow> Str em_dash)"

text \<open>Goals, an item of a plan and a response body, for concrete runs.\<close>

definition g1 :: goal where
  "g1 = \<lparr>g_id = Str ''g1'', g_name = ''Bike'', target_amount = Num (Fin 1000),
         current_amount = Num (Fin 250), target_date = Null\<rparr>"

definition g2_plan :: plan_item where
  "g2_plan = \<lparr>p_id = Str ''g2'', p_name = ''Car'', remaining = Num (Fin 400),
              months_to_target = Num (Fin 4), projected_completion = Str ''2026-03-01'',
              p_status = Str ''on_track''\<rparr>"

definition validation_body :: jsval where
  "validation_body = Obj [(''detail'', Arr [Obj [(''msg'', Str ''field required'')]])]"

definition g2 :: goal where
  "g2 = \<lparr>g_id = Str ''g2'', g_name = ''Car'', target_amount = Num (Fin 8000),
         current_amount = Num (Fin 7600), target_date = Str ''2026-06-01''\<rparr>"

definition g2_plan_old :: plan_item where
  "g2_plan_old = \<lparr>p_id = Str ''g2'', p_name = ''Car'', remaining = Num (Fin 900),
              months_to_target = Num (Fin 9), projected_completion = Str ''2026-08-01'',
              p_status = Str ''behind''\<rparr>"

definition g3_plan :: plan_item where
  "g3_plan = \<lparr>p_id = Str ''g3'', p_name = ''Trip'', remaining = Num (Fin 100),
              months_to_target = Num (Fin 1), projected_completion = Str ''2025-12-01'',
              p_status = Str ''on_track''\<rparr>"

text \<open>A goal and an item of a plan whose ids are two objects of the same content.\<close>

definition g4 :: goal where
  "g4 = \<lparr>g_id = Obj [(''n'', Num (Fin 4))], g_name = ''Boat'', target_amount = Num (Fin 500),
         current_amount = Num (Fin 50), target_date = Null\<rparr>"

definition g4_plan :: plan_item where
  "g4_plan = \<lparr>p_id = Obj [(''n'', Num (Fin 4))], p_name = ''Boat'', remaining = Num (Fin 450),
              months_to_target = Num (Fin 9), projected_completion = Str ''2026-09-01'',
              p_status = Str ''on_track''\<rparr>"

section \<open>Properties of the domain store\<close>

subsection \<open>Auxiliary facts\<close>

lemma run_fetch_unfold:
  "run_fetch h c (v, s) =
     (fst (fetch_api h c v), snd (fetch_api h c v),
      fetch_settle (fetch_key c) (fetch_put c) (fst (fetch_api h c v)) (fetch_entry (fetch_key c) s))"
  by (simp add: run_fetch_def fetch_action_def Let_def split: prod.splits)

lemma fetch_put_flags [simp]:
  "loading (fetch_put c d s) = loading s" "errors (fetch_put c d s) = errors s"
  by (cases c; simp)+

lemma slice_setLoading [simp]: "slice n (setLoading k b s) = slice n s"
  by (simp add: slice_def setLoading_def)

lemma slice_setError [simp]: "slice n (setError k e s) = slice n s"
  by (simp add: slice_def setError_def)

lemma slice_fetch_entry [simp]: "slice n (fetch_entry k s) = slice n s"
  by (simp add: fetch_entry_def)

lemma slice_fetch_put: "n \<noteq> fetch_domain c \<Longrightarrow> slice n (fetch_put c d s) = slice n s"
  by (cases c) (auto simp: slice_def)

lemma run_fetch_failed:
  assumes "run_fetch h c (v, s) = (Inl e, v', s')"
  shows "s' = setLoading (fetch_key c) False
               (setError (fetch_key c) (Some e) (fetch_entry (fetch_key c) s))"
  using assms by (auto simp: run_fetch_unfold fetch_settle_def)

lemma run_fetch_resolved:
  assumes "run_fetch h c (v, s) = (Inr d, v', s')"
  shows "s' = setLoading (fetch_key c) False (fetch_put c d (fetch_entry (fetch_key c) s))"
  using assms by (auto simp: run_fetch_unfold fetch_settle_def)

lemma initial_not_loading: "loading initial_store k \<noteq> Some True"
proof
  assume "loading initial_store k = Some True"
  then have "map_of (map (\<lambda>k. (k, False)) slot_keys) k = Some True"
    by (simp add: initial_store_def)
  then have "(k, True) \<in> set (map (\<lambda>k. (k, False)) slot_keys)"
    by (rule map_of_SomeD)
  then show False by auto
qed

lemma flags_exclusive_initial: "flags_exclusive initial_store"
  by (simp add: flags_exclusive_def initial_not_loading)

lemma flags_exclusive_entry: "flags_exclusive s \<Longrightarrow> flags_exclusive (fetch_entry key s)"
  by (simp add: flags_exclusive_def fetch_entry_def setLoading_def setError_def)

lemma flags_exclusive_settle:
  "flags_exclusive s \<Longrightarrow> flags_exclusive (fetch_settle (fetch_key c) (fetch_put c) r s)"
  by (cases r) (simp_all add: flags_exclusive_def fetch_settle_def setLoading_def setError_def)

lemma flags_exclusive_event: "flags_exclusive s \<Longrightarrow> flags_exclusive (apply_event ev s)"
proof (cases ev)
  case (FetchBegin c)
  assume "flags_exclusive s"
  then show ?thesis using FetchBegin by (simp add: flags_exclusive_entry)
next
  case (FetchSettle c r)
  assume "flags_exclusive s"
  then show ?thesis using FetchSettle by (simp add: flags_exclusive_settle)
next
  case SeedBegin
  assume "flags_exclusive s"
  then show ?thesis using SeedBegin by (simp add: flags_exclusive_entry)
qed (simp_all add: flags_exclusive_def set_transactions_def set_goals_def setLoading_def setError_def)

lemma flags_exclusive_events: "flags_exclusive s \<Longrightarrow> flags_exclusive (run_events es s)"
  unfolding run_events_def
  by (induction es arbitrary: s) (simp_all add: flags_exclusive_event)

lemma request_replay_empty:
  "request replay rq (seen, []) =
     (Inl \<lparr>message = Str ''Failed to fetch'', status = Num (Fin 0), details = Null\<rparr>,
      (seen @ [rq], []))"
  by (simp add: request_def replay_def request_outcome_def normalizeError_def network_failure_def
        js_or_def)

lemma request_replay_json_ok:
  "200 \<le> code \<Longrightarrow> code \<le> 299 \<Longrightarrow>
   request replay rq (seen, Inr (json_response code payload) # script) =
     (Inr payload, (seen @ [rq], script))"
  by (simp add: request_def replay_def request_outcome_def json_response_def parsed_body_def
        js_or_def)

lemma http_error_db_down:
  "http_error (json_response 500 (Obj [(''message'', Str ''db down'')])) =
     \<lparr>message = Str ''db down'', status = Num (Fin 500),
      details = Obj [(''message'', Str ''db down'')]\<rparr>"
  by (simp add: http_error_def json_response_def parsed_body_def js_or_def js_and_def)

lemma initial_flags:
  "loading initial_store ''summary'' = Some False" "errors initial_store ''summary'' = Some None"
  "loading initial_store ''transactions'' = Some False"
  "errors initial_store ''transactions'' = Some None"
  "loading initial_store ''goals'' = Some False" "errors initial_store ''goals'' = Some None"
  "loading initial_store ''behaviors'' = None" "errors initial_store ''behaviors'' = None"
  by (simp_all add: initial_store_def slot_keys_def)

lemma write_then_refetch_ok:
  assumes "mutate v = (Inr res0, v1)" and "relist v1 = (Inr items, v2)"
  shows "write_then_refetch mutate relist put ret (v, s) = (Inr (ret res0), v2, put items s)"
  using assms by (simp add: write_then_refetch_def)

lemma write_then_refetch_failed:
  assumes "write_then_refetch mutate relist put ret (v, s) = (Inl e, v', s')"
  shows "s' = s"
  using assms
  by (auto simp: write_then_refetch_def Let_def split: prod.splits sum.splits)

lemma write_then_refetch_rejected:
  assumes "mutate v = (Inl e, v1)"
  shows "write_then_refetch mutate relist put ret (v, s) = (Inl e, v1, s)"
  using assms by (simp add: write_then_refetch_def)

lemma returned_fun:
  "returned (CreateTx payload) = (\<lambda>res. res)"
  "returned (UpdateTx tx_id payload) = (\<lambda>res. res)"
  "returned (DeleteTx tx_id) = (\<lambda>res. Bool True)"
  "returned (CreateGoal payload) = (\<lambda>res. res)"
  "returned (UpdateGoal goal_id payload) = (\<lambda>res. res)"
  "returned (DeleteGoal goal_id) = (\<lambda>res. Bool True)"
  by (simp_all add: fun_eq_iff)

lemma run_write_refetch:
  assumes "\<not> is_upsert w"
  shows "run_write h w =
           write_then_refetch (request h (write_request h w))
             (request h (list_request (owning_collection w)))
             (if owning_collection w = ''transactions'' then set_transactions else set_goals)
             (returned w)"
proof (cases w)
  case (CreateTx payload)
  then show ?thesis
    by (simp add: createTx_def api_createTransaction_def api_listTransactions_def
          list_request_def returned_fun)
next
  case (UpdateTx tx_id payload)
  then show ?thesis
    by (simp add: updateTx_def api_updateTransaction_def api_listTransactions_def
          list_request_def returned_fun)
next
  case (DeleteTx tx_id)
  then show ?thesis
    by (simp add: deleteTx_def api_deleteTransaction_def api_listTransactions_def
          list_request_def returned_fun)
next
  case (CreateGoal payload)
  then show ?thesis
    by (simp add: createGoal_def api_createGoal_def api_listGoals_def list_request_def
          returned_fun)
next
  case (UpdateGoal goal_id payload)
  then show ?thesis
    by (simp add: updateGoal_def api_updateGoal_def api_listGoals_def list_request_def
          returned_fun)
next
  case (DeleteGoal goal_id)
  then show ?thesis
    by (simp add: deleteGoal_def api_deleteGoal_def api_listGoals_def list_request_def
          returned_fun)
next
  case (UpsertBudget payload)
  with assms show ?thesis by simp
qed

lemma run_write_upsert:
  "run_write h (UpsertBudget payload) (v, s) =
     (fst (request h (write_request h (UpsertBudget payload)) v),
      snd (request h (write_request h (UpsertBudget payload)) v), s)"
  by (simp add: upsertBudget_def api_upsertBudget_def split: prod.splits)

lemma flags_fetch_entry:
  "loading (fetch_entry k s) = (loading s)(k \<mapsto> True)"
  "errors (fetch_entry k s) = (errors s)(k \<mapsto> None)"
  by (simp_all add: fetch_entry_def setLoading_def setError_def)

lemma flags_fetch_settle:
  "loading (fetch_settle k (fetch_put c) r s) = (loading s)(k \<mapsto> False)"
  "errors (fetch_settle k (fetch_put c) r s) =
     (case r of Inl e \<Rightarrow> (errors s)(k \<mapsto> Some e) | Inr d \<Rightarrow> errors s)"
  by (cases r; simp add: fetch_settle_def setLoading_def setError_def)+

lemma slice_fetch_settle:
  "n \<noteq> fetch_domain c \<Longrightarrow> slice n (fetch_settle k (fetch_put c) r s) = slice n s"
  by (cases r) (simp_all add: fetch_settle_def slice_fetch_put)

lemma slice_set_transactions:
  "slice ''transactions'' (set_transactions items s) = js_or items (Arr [])"
  "n \<noteq> ''transactions'' \<Longrightarrow> slice n (set_transactions items s) = slice n s"
  by (simp_all add: slice_def set_transactions_def)

lemma slice_set_goals:
  "slice ''goals'' (set_goals items s) = js_or items (Arr [])"
  "n \<noteq> ''goals'' \<Longrightarrow> slice n (set_goals items s) = slice n s"
  by (simp_all add: slice_def set_goals_def)

lemma flags_set_collection:
  "loading (set_transactions items s) = loading s" "errors (set_transactions items s) = errors s"
  "loading (set_goals items s) = loading s" "errors (set_goals items s) = errors s"
  by (simp_all add: set_transactions_def set_goals_def)

lemma owning_collection_cases:
  "\<not> is_upsert w \<Longrightarrow> owning_collection w = ''transactions'' \<or> owning_collection w = ''goals''"
  by (cases w) simp_all

lemma fetch_action_result:
  "fst (run_fetch h c (v, s)) = fst (fetch_api h c v)"
  "fst (snd (run_fetch h c (v, s))) = snd (fetch_api h c v)"
  by (simp_all add: run_fetch_unfold)

lemma seedDemoLoad_failed:
  assumes "api_seedDemoLoad h (default_to seed_default p) v = (Inl e, v')"
  shows "seedDemoLoad h p (v, s) =
           (Inl e, v', setLoading ''seed'' False (setError ''seed'' (Some e) (fetch_entry ''seed'' s)))"
  using assms by (simp add: seedDemoLoad_def)

lemma seedDemoClear_failed:
  assumes "api_seedDemoClear h v = (Inl e, v')"
  shows "seedDemoClear h (v, s) =
           (Inl e, v', setLoading ''seed'' False (setError ''seed'' (Some e) (fetch_entry ''seed'' s)))"
  using assms by (simp add: seedDemoClear_def)

lemma seedDemoLoad_ok:
  assumes "api_seedDemoLoad h (default_to seed_default p) v = (Inr res, v1)"
  shows "fst (seedDemoLoad h p (v, s)) = Inr res"
    and "errors (snd (snd (seedDemoLoad h p (v, s)))) ''seed'' = Some None"
    and "loading (snd (snd (seedDemoLoad h p (v, s)))) ''seed'' = Some False"
  using assms
  by (simp_all add: seedDemoLoad_def Let_def flags_fetch_entry flags_fetch_settle setLoading_def
        split: prod.splits sum.splits)

lemma run_write_failed:
  assumes "run_write h w (v, s) = (Inl e, v', s')"
  shows "s' = s"
proof (cases "is_upsert w")
  case True
  then obtain payload where "w = UpsertBudget payload" by (cases w) simp_all
  with assms show ?thesis
    by (auto simp: upsertBudget_def api_upsertBudget_def split: prod.splits)
next
  case False
  with assms show ?thesis
    by (simp add: run_write_refetch write_then_refetch_failed)
qed

lemma run_write_rejected:
  assumes "request h (write_request h w) v = (Inl e, v')"
  shows "run_write h w (v, s) = (Inl e, v', s)"
proof (cases "is_upsert w")
  case True
  then obtain payload where "w = UpsertBudget payload" by (cases w) simp_all
  with assms show ?thesis
    by (auto simp: upsertBudget_def api_upsertBudget_def split: prod.splits)
next
  case False
  with assms show ?thesis
    by (simp add: run_write_refetch write_then_refetch_rejected)
qed

lemma fetchTransactions_db_down:
  assumes "fetch h v \<lparr>http_method = ''GET'', path = ''/transactions'', params = ps, body = Undefined\<rparr>
             = (Inr (json_response 500 db_down), v')"
  shows "fst (fetchTransactions h ps (v, s)) = Inl db_down_error"
    and "errors (snd (snd (fetchTransactions h ps (v, s)))) ''transactions'' = Some (Some db_down_error)"
    and "loading (snd (snd (fetchTransactions h ps (v, s)))) ''transactions'' = Some False"
proof -
  have "api_listTransactions h ps v = (Inl db_down_error, v')"
    using assms
    by (simp add: api_listTransactions_def request_def request_outcome_def db_down_def
          http_error_db_down db_down_error_def) (simp add: json_response_def)
  then have r: "fetch_api h (FetchTransactions ps) v = (Inl db_down_error, v')" by simp
  show "fst (fetchTransactions h ps (v, s)) = Inl db_down_error"
    unfolding fetchTransactions_def fetch_action_result r by simp
  have "run_fetch h (FetchTransactions ps) (v, s) =
          (Inl db_down_error, v', snd (snd (run_fetch h (FetchTransactions ps) (v, s))))"
    unfolding run_fetch_unfold r by simp
  from run_fetch_failed [OF this]
  show "errors (snd (snd (fetchTransactions h ps (v, s)))) ''transactions'' = Some (Some db_down_error)"
    and "loading (snd (snd (fetchTransactions h ps (v, s)))) ''transactions'' = Some False"
    by (simp_all add: fetchTransactions_def setLoading_def setError_def)
qed

lemma api_replay_empty:
  "api_listGoals replay (seen, []) =
     (Inl fetch_failed_error,
      (seen @ [\<lparr>http_method = ''GET'', path = ''/goals'', params = Undefined, body = Undefined\<rparr>], []))"
  "api_seedDemoClear replay (seen, []) =
     (Inl fetch_failed_error,
      (seen @ [\<lparr>http_method = ''DELETE'', path = ''/seed/demo/clear'', params = Undefined,
                body = Undefined\<rparr>], []))"
  "api_seedDemoLoad replay payload (seen, []) =
     (Inl fetch_failed_error,
      (seen @ [\<lparr>http_method = ''POST'', path = ''/seed/demo/load'', params = Undefined,
                body = payload\<rparr>], []))"
  "api_analyticsBehaviors replay ps (seen, []) =
     (Inl fetch_failed_error,
      (seen @ [\<lparr>http_method = ''GET'', path = ''/analytics/behaviors'', params = ps,
                body = Undefined\<rparr>], []))"
  by (simp_all add: api_listGoals_def api_seedDemoClear_def api_seedDemoLoad_def
        api_analyticsBehaviors_def request_replay_empty fetch_failed_error_def)

lemma String_replay: "String replay (Str t) = t"
  by (simp add: replay_def sample_String_def)

lemma run_fetch_store:
  "snd (snd (run_fetch h c (v, s))) =
     fetch_settle (fetch_key c) (fetch_put c) (fst (fetch_api h c v)) (fetch_entry (fetch_key c) s)"
  by (simp add: run_fetch_unfold)

subsection \<open>C10: a failed fetch keeps the cached value\<close>

text \<open>
  Claim C10. For every fetch action, if the request rejects, the action changes nothing
  but its loading flag (now \<open>false\<close>) and its error slot (now the error): every cached
  value, of its own domain and of every other, is what it was when the action started.
  Neither of its two steps, the entry and the settlement of the rejection, changes a
  cached value, wherever they fall in a history of the store.
\<close>

theorem failed_fetch_keeps_cache:
  assumes "run_fetch h c (v, s) = (Inl e, v', s')"
  shows "s' = s\<lparr>loading := (loading s)(fetch_key c \<mapsto> False),
                 errors := (errors s)(fetch_key c \<mapsto> Some e)\<rparr>
         \<and> (\<forall>n. slice n s' = slice n s)
         \<and> (\<forall>n x. slice n (apply_event (FetchBegin c) x) = slice n x)
         \<and> (\<forall>n x. slice n (apply_event (FetchSettle c (Inl e)) x) = slice n x)"
proof (intro conjI)
  note s' = run_fetch_failed [OF assms]
  show "s' = s\<lparr>loading := (loading s)(fetch_key c \<mapsto> False),
                  errors := (errors s)(fetch_key c \<mapsto> Some e)\<rparr>"
    by (simp add: s' setLoading_def setError_def fetch_entry_def)
  show "\<forall>n. slice n s' = slice n s"
    by (simp add: s')
  show "\<forall>n x. slice n (apply_event (FetchBegin c) x) = slice n x"
    by simp
  show "\<forall>n x. slice n (apply_event (FetchSettle c (Inl e)) x) = slice n x"
    by (simp add: fetch_settle_def)
qed

theorem failed_fetch_keeps_cache_witness:
  "fst (run_fetch replay (FetchTransactions Undefined)
         (([], [Inr (json_response 500 db_down)]), stale_store)) = Inl db_down_error
   \<and> snd (snd (run_fetch replay (FetchTransactions Undefined)
         (([], [Inr (json_response 500 db_down)]), stale_store))) =
       stale_store\<lparr>loading := (loading stale_store)(''transactions'' \<mapsto> False),
                   errors := (errors stale_store)(''transactions'' \<mapsto> Some db_down_error)\<rparr>
   \<and> transactions (snd (snd (run_fetch replay (FetchTransactions Undefined)
         (([], [Inr (json_response 500 db_down)]), stale_store)))) = Arr [Str ''stale'']"
proof -
  let ?v = "([], [Inr (json_response 500 db_down)])
              :: http_request list \<times> (jsval + response) list"
  let ?get = "\<lparr>http_method = ''GET'', path = ''/transactions'', params = Undefined,
                body = Undefined\<rparr>"
  let ?R = "run_fetch replay (FetchTransactions Undefined) (?v, stale_store)"
  have "fetch replay ?v ?get = (Inr (json_response 500 db_down), ([?get], []))"
    by (simp add: replay_def)
  then have api: "api_listTransactions replay Undefined ?v = (Inl db_down_error, ([?get], []))"
    by (simp add: api_listTransactions_def request_def request_outcome_def db_down_def
          http_error_db_down db_down_error_def) (simp add: json_response_def)
  have r: "?R = (Inl db_down_error, ([?get], []), snd (snd ?R))"
    unfolding run_fetch_unfold fetch_api.simps api by simp
  from failed_fetch_keeps_cache [OF r]
  have s': "snd (snd ?R) =
              stale_store\<lparr>loading := (loading stale_store)(''transactions'' \<mapsto> False),
                          errors := (errors stale_store)(''transactions'' \<mapsto> Some db_down_error)\<rparr>"
    by simp
  have "fst ?R = Inl db_down_error" by (subst r) simp
  moreover have "transactions (snd (snd ?R)) = Arr [Str ''stale'']"
    by (subst s') (simp add: stale_store_def)
  ultimately show ?thesis using s' by (intro conjI)
qed

subsection \<open>C3: loading flag and error slot\<close>

lemma apply_event_sets: "apply_event ev s = fold apply_set (sets_of ev) s"
proof (cases ev)
  case (FetchSettle c r)
  then show ?thesis by (cases r) (simp_all add: fetch_settle_def)
qed (simp_all add: fetch_entry_def)

lemma run_events_sets: "run_events es s = fold apply_set (concat (map sets_of es)) s"
  unfolding run_events_def
  by (induction es arbitrary: s) (simp_all add: apply_event_sets)

lemma sets_of_short: "length (sets_of ev) \<le> 2"
proof (cases ev)
  case (FetchSettle c r)
  then show ?thesis by (cases r) simp_all
qed simp_all

lemma set_trace_append:
  "set_trace (xs @ ys) s = set_trace xs s @ set_trace ys (fold apply_set xs s)"
  by (induction xs arbitrary: s) simp_all

lemma published_Cons:
  "published (ev # es) s = set_trace (sets_of ev) s @ published es (apply_event ev s)"
  by (simp add: published_def set_trace_append apply_event_sets)

lemma apply_set_flags:
  assumes "\<not> transient k c" "loading (apply_set c s) k = Some True"
    "errors (apply_set c s) k \<noteq> Some None"
  shows "loading s k = Some True \<and> errors s k \<noteq> Some None"
proof (cases c)
  case (SetLoading key v)
  with assms show ?thesis by (auto simp: setLoading_def split: if_splits)
next
  case (SetError key v)
  with assms show ?thesis by (auto simp: setError_def split: if_splits)
next
  case (SetSlice c d)
  with assms show ?thesis by simp
next
  case (SetTransactions items)
  with assms show ?thesis by (simp add: set_transactions_def)
next
  case (SetGoals items)
  with assms show ?thesis by (simp add: set_goals_def)
next
  case ClearTransactions
  with assms show ?thesis by simp
qed

lemma step_transient:
  assumes ex: "flags_exclusive s" and p: "p \<in> set (set_trace (sets_of ev) s)"
    and l: "loading (snd p) k = Some True" and e: "errors (snd p) k \<noteq> Some None"
  shows "transient k (fst p)"
proof -
  have fin: "flags_exclusive (fold apply_set (sets_of ev) s)"
    using flags_exclusive_event [OF ex, of ev] by (simp only: apply_event_sets)
  have start: "\<not> (loading s k = Some True \<and> errors s k \<noteq> Some None)"
    using ex by (simp add: flags_exclusive_def)
  consider "sets_of ev = []" | c1 where "sets_of ev = [c1]"
    | c1 c2 where "sets_of ev = [c1, c2]"
    using sets_of_short [of ev]
    by (cases "sets_of ev"; simp) (metis Suc_le_mono le_zero_eq length_0_conv list.exhaust list.size(4) numeral_2_eq_2 One_nat_def Suc_eq_plus1)
  then show ?thesis
  proof cases
    case 1
    with p show ?thesis by simp
  next
    case 2
    with p have "p = (c1, apply_set c1 s)" by simp
    moreover have "flags_exclusive (apply_set c1 s)" using fin 2 by simp
    ultimately show ?thesis using l e by (simp add: flags_exclusive_def)
  next
    case 3
    with p consider "p = (c1, apply_set c1 s)" | "p = (c2, apply_set c2 (apply_set c1 s))"
      by auto
    then show ?thesis
    proof cases
      case 1
      show ?thesis
      proof (rule ccontr)
        assume "\<not> transient k (fst p)"
        then have "\<not> transient k c1" by (simp add: 1)
        from apply_set_flags [OF this] l e start show False by (simp add: 1)
      qed
    next
      case 2
      moreover have "flags_exclusive (apply_set c2 (apply_set c1 s))" using fin 3 by simp
      ultimately show ?thesis using l e by (simp add: flags_exclusive_def)
    qed
  qed
qed

lemma published_transient:
  assumes "flags_exclusive s" "p \<in> set (published es s)"
    "loading (snd p) k = Some True" "errors (snd p) k \<noteq> Some None"
  shows "transient k (fst p)"
  using assms
proof (induction es arbitrary: s)
  case Nil
  then show ?case by (simp add: published_def)
next
  case (Cons ev es)
  from Cons.prems(2) consider "p \<in> set (set_trace (sets_of ev) s)"
    | "p \<in> set (published es (apply_event ev s))"
    by (auto simp: published_Cons)
  then show ?case
  proof cases
    case 1
    then show ?thesis by (rule step_transient [OF Cons.prems(1) _ Cons.prems(3,4)])
  next
    case 2
    show ?thesis
      by (rule Cons.IH [OF flags_exclusive_event [OF Cons.prems(1)] 2 Cons.prems(3,4)])
  qed
qed

lemma transient_restored:
  assumes "c \<in> set (sets_of ev)" "transient k c"
  shows "sets_of ev = [c, SetError k None] \<or> sets_of ev = [c, SetLoading k False]"
proof (cases ev)
  case (FetchSettle c' r)
  with assms show ?thesis by (cases r) auto
qed (use assms in auto)

text \<open>
  Claim C3, amended. (1) At the end of every step of every history of the store, that
  is in every state another action or a later step of the same action can find, a slot
  whose loading flag is \<open>true\<close> has the error \<open>null\<close>. (2) Within a step every call of
  \<open>set\<close> publishes a state, and there the flag of a slot can be \<open>true\<close> with an error in
  the slot: only in the state published by the \<open>_setLoading(key, true)\<close> of an entry,
  which the \<open>_setError(key, null)\<close> of the same entry follows, and in the state published
  by the \<open>_setError(key, e)\<close> of a \<open>catch\<close>, which the \<open>_setLoading(key, false)\<close> of
  \<open>finally\<close> follows. (3) The settlement of a failed fetch stores its error and sets the
  flag to \<open>false\<close>; the settlement of a successful one sets the flag to \<open>false\<close> and
  leaves the error slot as it finds it; the entry clears the slot. (4) So a fetch that
  runs from entry to settlement with no step of another action in between ends with
  the error set and the flag \<open>false\<close> when it fails, and with the error \<open>null\<close> and the
  flag \<open>false\<close> when it succeeds; its two steps are the events \<open>FetchBegin\<close> and
  \<open>FetchSettle\<close>.
\<close>

theorem loading_excludes_error:
  "(loading (run_events es initial_store) k = Some True \<longrightarrow>
      errors (run_events es initial_store) k = Some None)
   \<and> (\<forall>p \<in> set (published es initial_store).
        loading (snd p) k = Some True \<and> errors (snd p) k \<noteq> Some None
        \<longrightarrow> transient k (fst p))
   \<and> (\<forall>c \<in> set (sets_of ev). transient k c \<longrightarrow>
        sets_of ev = [c, SetError k None] \<or> sets_of ev = [c, SetLoading k False])
   \<and> run_events es s = fold apply_set (concat (map sets_of es)) s
   \<and> errors (apply_event (FetchSettle c (Inl e)) s) (fetch_key c) = Some (Some e)
   \<and> loading (apply_event (FetchSettle c r) s) (fetch_key c) = Some False
   \<and> errors (apply_event (FetchSettle c (Inr d)) s) = errors s
   \<and> errors (apply_event (FetchBegin c) s) (fetch_key c) = Some None
   \<and> snd (snd (run_fetch h c (v, s))) =
       run_events [FetchBegin c, FetchSettle c (fst (fetch_api h c v))] s
   \<and> (run_fetch h c (v, s) = (Inl e, v', s') \<longrightarrow>
        errors s' (fetch_key c) = Some (Some e) \<and> loading s' (fetch_key c) = Some False)
   \<and> (run_fetch h c (v, s) = (Inr d, v', s') \<longrightarrow>
        errors s' (fetch_key c) = Some None \<and> loading s' (fetch_key c) = Some False)"
proof (intro conjI impI ballI)
  assume "loading (run_events es initial_store) k = Some True"
  moreover have "flags_exclusive (run_events es initial_store)"
    by (rule flags_exclusive_events [OF flags_exclusive_initial])
  ultimately show "errors (run_events es initial_store) k = Some None"
    by (simp add: flags_exclusive_def)
next
  fix p
  assume "p \<in> set (published es initial_store)"
    "loading (snd p) k = Some True \<and> errors (snd p) k \<noteq> Some None"
  then show "transient k (fst p)"
    using published_transient [OF flags_exclusive_initial, of p es k] by blast
next
  fix c0
  assume "c0 \<in> set (sets_of ev)" "transient k c0"
  then show "sets_of ev = [c0, SetError k None] \<or> sets_of ev = [c0, SetLoading k False]"
    by (rule transient_restored)
next
  show "run_events es s = fold apply_set (concat (map sets_of es)) s"
    by (rule run_events_sets)
  show "errors (apply_event (FetchSettle c (Inl e)) s) (fetch_key c) = Some (Some e)"
    by (simp add: flags_fetch_settle)
  show "loading (apply_event (FetchSettle c r) s) (fetch_key c) = Some False"
    by (simp add: flags_fetch_settle)
  show "errors (apply_event (FetchSettle c (Inr d)) s) = errors s"
    by (simp add: flags_fetch_settle)
  show "errors (apply_event (FetchBegin c) s) (fetch_key c) = Some None"
    by (simp add: flags_fetch_entry)
  show "snd (snd (run_fetch h c (v, s))) =
          run_events [FetchBegin c, FetchSettle c (fst (fetch_api h c v))] s"
    by (simp add: run_fetch_store run_events_def)
next
  assume "run_fetch h c (v, s) = (Inl e, v', s')"
  then have s': "s' = setLoading (fetch_key c) False
                        (setError (fetch_key c) (Some e) (fetch_entry (fetch_key c) s))"
    by (rule run_fetch_failed)
  show "errors s' (fetch_key c) = Some (Some e)" "loading s' (fetch_key c) = Some False"
    by (simp_all add: s' setLoading_def setError_def)
next
  assume "run_fetch h c (v, s) = (Inr d, v', s')"
  then have s': "s' = setLoading (fetch_key c) False
                        (fetch_put c d (fetch_entry (fetch_key c) s))"
    by (rule run_fetch_resolved)
  show "errors s' (fetch_key c) = Some None" "loading s' (fetch_key c) = Some False"
    by (simp_all add: s' setLoading_def fetch_entry_def setError_def)
qed

theorem loading_excludes_error_witness:
  "loading (run_events [FetchBegin FetchGoals] initial_store) ''goals'' = Some True
   \<and> errors (run_events [FetchBegin FetchGoals] initial_store) ''goals'' = Some None
   \<and> fst (run_fetch replay FetchGoals (([], []), initial_store)) = Inl fetch_failed_error
   \<and> errors (snd (snd (run_fetch replay FetchGoals (([], []), initial_store)))) ''goals''
       = Some (Some fetch_failed_error)
   \<and> loading (snd (snd (run_fetch replay FetchGoals (([], []), initial_store)))) ''goals''
       = Some False
   \<and> fst (run_fetch replay FetchGoals (([], [Inr (json_response 200 (Arr []))]), initial_store))
       = Inr (Arr [])
   \<and> errors (snd (snd (run_fetch replay FetchGoals
         (([], [Inr (json_response 200 (Arr []))]), initial_store)))) ''goals'' = Some None
   \<and> loading (snd (snd (run_fetch replay FetchGoals
         (([], [Inr (json_response 200 (Arr []))]), initial_store)))) ''goals'' = Some False
   \<and> transient ''goals''
       (fst (published [FetchBegin FetchGoals, FetchSettle FetchGoals (Inl db_down_error)]
               initial_store ! 2))
   \<and> sets_of (FetchSettle FetchGoals (Inl db_down_error))
       = [SetError ''goals'' (Some db_down_error), SetLoading ''goals'' False]"
proof -
  let ?v0 = "([], []) :: http_request list \<times> (jsval + response) list"
  let ?v1 = "([], [Inr (json_response 200 (Arr []))])
               :: http_request list \<times> (jsval + response) list"
  let ?goals = "\<lparr>http_method = ''GET'', path = ''/goals'', params = Undefined, body = Undefined\<rparr>"
  let ?R0 = "run_fetch replay FetchGoals (?v0, initial_store)"
  let ?R1 = "run_fetch replay FetchGoals (?v1, initial_store)"
  let ?es = "[FetchBegin FetchGoals, FetchSettle FetchGoals (Inl db_down_error)]"
  let ?p = "published ?es initial_store ! 2"
  have l: "loading (run_events [FetchBegin FetchGoals] initial_store) ''goals'' = Some True"
    by (simp add: run_events_def flags_fetch_entry)
  have r0: "?R0 = (Inl fetch_failed_error, ([?goals], []), snd (snd ?R0))"
    by (simp add: run_fetch_unfold api_replay_empty)
  have r1: "?R1 = (Inr (Arr []), ([?goals], []), snd (snd ?R1))"
    by (simp add: run_fetch_unfold api_listGoals_def request_replay_json_ok)
  have len: "length (published ?es initial_store) = 4"
    by (simp add: published_def)
  have p: "?p = (SetError ''goals'' (Some db_down_error),
                 setError ''goals'' (Some db_down_error)
                   (setError ''goals'' None (setLoading ''goals'' True initial_store)))"
    by (simp add: published_def numeral_2_eq_2)
  have mem: "?p \<in> set (published ?es initial_store)"
    by (rule nth_mem) (simp add: len)
  have viol: "loading (snd ?p) ''goals'' = Some True
                \<and> errors (snd ?p) ''goals'' \<noteq> Some None"
    by (simp add: p setLoading_def setError_def)
  have tr: "transient ''goals'' (fst ?p)"
    by (rule loading_excludes_error [where es = ?es and k = "''goals''",
          THEN conjunct2, THEN conjunct1, rule_format, OF mem viol])
  have c: "SetError ''goals'' (Some db_down_error)
             \<in> set (sets_of (FetchSettle FetchGoals (Inl db_down_error)))"
    "transient ''goals'' (SetError ''goals'' (Some db_down_error))"
    by simp_all
  from loading_excludes_error
         [where ev = "FetchSettle FetchGoals (Inl db_down_error)" and k = "''goals''",
          THEN conjunct2, THEN conjunct2, THEN conjunct1, rule_format, OF c]
  have so: "sets_of (FetchSettle FetchGoals (Inl db_down_error))
       = [SetError ''goals'' (Some db_down_error), SetLoading ''goals'' False]"
    by simp
  from loading_excludes_error
         [where es = "[FetchBegin FetchGoals]" and k = "''goals''", THEN conjunct1,
          rule_format, OF l]
    loading_excludes_error
         [where h = replay and c = FetchGoals and v = ?v0 and s = initial_store,
          THEN conjunct2, THEN conjunct2, THEN conjunct2, THEN conjunct2, THEN conjunct2,
          THEN conjunct2, THEN conjunct2, THEN conjunct2, THEN conjunct2, THEN conjunct1,
          rule_format, OF r0]
    loading_excludes_error
         [where h = replay and c = FetchGoals and v = ?v1 and s = initial_store,
          THEN conjunct2, THEN conjunct2, THEN conjunct2, THEN conjunct2, THEN conjunct2,
          THEN conjunct2, THEN conjunct2, THEN conjunct2, THEN conjunct2, THEN conjunct2,
          rule_format, OF r1]
  have "errors (run_events [FetchBegin FetchGoals] initial_store) ''goals'' = Some None"
    "errors (snd (snd ?R0)) ''goals'' = Some (Some fetch_failed_error)"
    "loading (snd (snd ?R0)) ''goals'' = Some False"
    "errors (snd (snd ?R1)) ''goals'' = Some None"
    "loading (snd (snd ?R1)) ''goals'' = Some False"
    by simp_all
  moreover have "fst ?R0 = Inl fetch_failed_error" by (subst r0) simp
  moreover have "fst ?R1 = Inr (Arr [])" by (subst r1) simp
  ultimately show ?thesis using l tr so by (intro conjI)
qed

text \<open>
  The claim as stated fails twice. Every failed fetch publishes a state with its flag
  still \<open>true\<close> and its error in the slot: the state between the \<open>_setError\<close> of \<open>catch\<close>
  and the \<open>_setLoading\<close> of \<open>finally\<close>, the third a fetch of the goals publishes. And
  where two fetches of one slot overlap, the first rejected and the second then
  resolved, the successful fetch ends with the error of the other still in the slot:
  so it is for two calls of \<open>fetchTransactions\<close>, and for \<open>fetchBudgets\<close> and
  \<open>fetchBudgetSummary\<close>, which the Budgets page starts together.
\<close>

theorem overlapping_success_keeps_error:
  "loading (snd (published [FetchBegin FetchGoals, FetchSettle FetchGoals (Inl db_down_error)]
      initial_store ! 2)) ''goals'' = Some True
   \<and> errors (snd (published [FetchBegin FetchGoals, FetchSettle FetchGoals (Inl db_down_error)]
      initial_store ! 2)) ''goals'' = Some (Some db_down_error)
   \<and> errors (run_events
      [FetchBegin (FetchTransactions (Obj [(''category'', Str ''Rent'')])),
       FetchBegin (FetchTransactions (Obj [(''category'', Str ''Food'')])),
       FetchSettle (FetchTransactions (Obj [(''category'', Str ''Rent'')])) (Inl db_down_error),
       FetchSettle (FetchTransactions (Obj [(''category'', Str ''Food'')])) (Inr (Arr []))]
      initial_store) ''transactions'' = Some (Some db_down_error)
   \<and> loading (run_events
      [FetchBegin (FetchTransactions (Obj [(''category'', Str ''Rent'')])),
       FetchBegin (FetchTransactions (Obj [(''category'', Str ''Food'')])),
       FetchSettle (FetchTransactions (Obj [(''category'', Str ''Rent'')])) (Inl db_down_error),
       FetchSettle (FetchTransactions (Obj [(''category'', Str ''Food'')])) (Inr (Arr []))]
      initial_store) ''transactions'' = Some False
   \<and> errors (run_events
      [FetchBegin (FetchBudgets (Obj [(''period'', Str ''month''), (''start'', Str ''2025-01'')])),
       FetchBegin (FetchBudgetSummary (Str ''2025-01'')),
       FetchSettle (FetchBudgets (Obj [(''period'', Str ''month''), (''start'', Str ''2025-01'')]))
         (Inl db_down_error),
       FetchSettle (FetchBudgetSummary (Str ''2025-01'')) (Inr (Obj [(''items'', Arr [])]))]
      initial_store) ''budgets'' = Some (Some db_down_error)"
proof -
  have "published [FetchBegin FetchGoals, FetchSettle FetchGoals (Inl db_down_error)]
          initial_store ! 2
        = (SetError ''goals'' (Some db_down_error),
           setError ''goals'' (Some db_down_error)
             (setError ''goals'' None (setLoading ''goals'' True initial_store)))"
    by (simp add: published_def numeral_2_eq_2)
  then show ?thesis
    by (simp add: run_events_def flags_fetch_settle flags_fetch_entry setLoading_def
          setError_def)
qed

subsection \<open>C4: what a fetch action touches\<close>

text \<open>
  Claim C4, amended. Every fetch action passes one key to the two helpers and changes
  no loading flag and no error slot under any other key, neither while it waits nor when
  it has ended; it changes no cached value but that of its own domain. The key is the
  name of the domain except for \<open>fetchBehaviors\<close> (key \<open>summary\<close>), \<open>fetchBudgetSummary\<close>
  (key \<open>budgets\<close>) and \<open>fetchSavingsAdvice\<close> (key \<open>advice\<close>).
\<close>

theorem fetch_touches_its_slot_only:
  "(\<forall>k. k \<noteq> fetch_key c \<longrightarrow>
        loading (snd (snd (run_fetch h c (v, s)))) k = loading s k
        \<and> errors (snd (snd (run_fetch h c (v, s)))) k = errors s k
        \<and> loading (fetch_entry (fetch_key c) s) k = loading s k
        \<and> errors (fetch_entry (fetch_key c) s) k = errors s k)
   \<and> (\<forall>n. n \<noteq> fetch_domain c \<longrightarrow> slice n (snd (snd (run_fetch h c (v, s)))) = slice n s)
   \<and> (\<forall>n. slice n (fetch_entry (fetch_key c) s) = slice n s)
   \<and> fetch_key c =
       (case c of
          FetchBehaviors ps \<Rightarrow> ''summary''
        | FetchBudgetSummary month \<Rightarrow> ''budgets''
        | FetchSavingsAdvice period \<Rightarrow> ''advice''
        | _ \<Rightarrow> fetch_domain c)"
proof (intro conjI allI impI)
  fix k assume k: "k \<noteq> fetch_key c"
  show "loading (snd (snd (run_fetch h c (v, s)))) k = loading s k"
    using k by (simp add: run_fetch_store flags_fetch_settle flags_fetch_entry)
  show "errors (snd (snd (run_fetch h c (v, s)))) k = errors s k"
    using k by (simp add: run_fetch_store flags_fetch_settle flags_fetch_entry split: sum.splits)
  show "loading (fetch_entry (fetch_key c) s) k = loading s k"
    using k by (simp add: flags_fetch_entry)
  show "errors (fetch_entry (fetch_key c) s) k = errors s k"
    using k by (simp add: flags_fetch_entry)
next
  fix n assume "n \<noteq> fetch_domain c"
  then show "slice n (snd (snd (run_fetch h c (v, s)))) = slice n s"
    by (simp add: run_fetch_store slice_fetch_settle)
next
  fix n show "slice n (fetch_entry (fetch_key c) s) = slice n s" by simp
next
  show "fetch_key c =
       (case c of
          FetchBehaviors ps \<Rightarrow> ''summary''
        | FetchBudgetSummary month \<Rightarrow> ''budgets''
        | FetchSavingsAdvice period \<Rightarrow> ''advice''
        | _ \<Rightarrow> fetch_domain c)"
    by (cases c) simp_all
qed

theorem fetch_touches_its_slot_only_witness:
  "loading (snd (snd (run_fetch replay (FetchBudgetSummary (Str ''2025-01''))
       (([], []), stale_store)))) ''goals'' = loading stale_store ''goals''
   \<and> errors (snd (snd (run_fetch replay (FetchBudgetSummary (Str ''2025-01''))
       (([], []), stale_store)))) ''goals'' = errors stale_store ''goals''
   \<and> loading (fetch_entry (fetch_key (FetchBudgetSummary (Str ''2025-01''))) stale_store) ''goals''
       = loading stale_store ''goals''
   \<and> errors (fetch_entry (fetch_key (FetchBudgetSummary (Str ''2025-01''))) stale_store) ''goals''
       = errors stale_store ''goals''
   \<and> slice ''budgets'' (snd (snd (run_fetch replay (FetchBudgetSummary (Str ''2025-01''))
       (([], []), stale_store)))) = Arr [Str ''stale'']
   \<and> fetch_key (FetchBudgetSummary (Str ''2025-01'')) = ''budgets''"
proof -
  note t = fetch_touches_its_slot_only
             [where c = "FetchBudgetSummary (Str ''2025-01'')" and h = replay
                and v = "([], [])" and s = stale_store]
  have k: "''goals'' \<noteq> fetch_key (FetchBudgetSummary (Str ''2025-01''))" by simp
  have n: "''budgets'' \<noteq> fetch_domain (FetchBudgetSummary (Str ''2025-01''))" by simp
  have b: "slice ''budgets'' stale_store = Arr [Str ''stale'']"
    by (simp add: slice_def stale_store_def)
  from t [THEN conjunct1, rule_format, OF k] t [THEN conjunct2, THEN conjunct1, rule_format, OF n]
    t [THEN conjunct2, THEN conjunct2, THEN conjunct2] b
  show ?thesis by simp
qed

text \<open>
  The claim as stated fails for \<open>fetchBehaviors\<close>: its domain is \<open>behaviors\<close>, and it
  sets the loading flag and the error slot of \<open>summary\<close>; the state has no flag and no
  slot \<open>behaviors\<close>.
\<close>

theorem fetchBehaviors_uses_summary_slot:
  "fetch_domain (FetchBehaviors Undefined) = ''behaviors''
   \<and> loading initial_store ''summary'' = Some False
   \<and> loading (fetch_entry (fetch_key (FetchBehaviors Undefined)) initial_store) ''summary''
       = Some True
   \<and> loading (fetch_entry (fetch_key (FetchBehaviors Undefined)) initial_store) ''behaviors''
       = None
   \<and> errors initial_store ''summary'' = Some None
   \<and> errors (snd (snd (fetchBehaviors replay Undefined (([], []), initial_store)))) ''summary''
       = Some (Some fetch_failed_error)
   \<and> errors (snd (snd (fetchBehaviors replay Undefined (([], []), initial_store)))) ''behaviors''
       = None"
  by (simp add: fetchBehaviors_def run_fetch_store flags_fetch_settle flags_fetch_entry
        api_replay_empty initial_flags)

subsection \<open>C2: failing requests\<close>

text \<open>
  Claim C2, amended. A fetch action returns the outcome of its request; when the
  request fails it stores the error in the slot of its key, sets the flag to \<open>false\<close> and
  throws the error again. The seed actions do the same in the slot \<open>seed\<close> for their own
  request, and a successful load ends successfully with the slot \<open>null\<close> whatever the two
  refreshes do. A write action whose request fails throws the error and leaves the
  state, error slots included, as it was. A \<open>GET /transactions\<close> answered with status
  500 and the body \<open>{message: "db down"}\<close> leaves
  \<open>errors.transactions = {message: "db down", status: 500, details: {message: "db down"}}\<close>
  and \<open>loading.transactions = false\<close>.
\<close>

theorem failed_request_is_reported:
  "(run_fetch h c (v, s) = (Inl e, v', s') \<longrightarrow>
      fetch_api h c v = (Inl e, v') \<and> errors s' (fetch_key c) = Some (Some e)
      \<and> loading s' (fetch_key c) = Some False)
   \<and> fst (run_fetch h c (v, s)) = fst (fetch_api h c v)
   \<and> (api_seedDemoLoad h (default_to seed_default p) v = (Inl e, v') \<longrightarrow>
        fst (seedDemoLoad h p (v, s)) = Inl e
        \<and> errors (snd (snd (seedDemoLoad h p (v, s)))) ''seed'' = Some (Some e)
        \<and> loading (snd (snd (seedDemoLoad h p (v, s)))) ''seed'' = Some False)
   \<and> (api_seedDemoLoad h (default_to seed_default p) v = (Inr res, v') \<longrightarrow>
        fst (seedDemoLoad h p (v, s)) = Inr res
        \<and> errors (snd (snd (seedDemoLoad h p (v, s)))) ''seed'' = Some None
        \<and> loading (snd (snd (seedDemoLoad h p (v, s)))) ''seed'' = Some False)
   \<and> (api_seedDemoClear h v = (Inl e, v') \<longrightarrow>
        fst (seedDemoClear h (v, s)) = Inl e
        \<and> errors (snd (snd (seedDemoClear h (v, s)))) ''seed'' = Some (Some e)
        \<and> loading (snd (snd (seedDemoClear h (v, s)))) ''seed'' = Some False)
   \<and> (request h (write_request h w) v = (Inl e, v') \<longrightarrow> run_write h w (v, s) = (Inl e, v', s))
   \<and> (run_write h w (v, s) = (Inl e, v', s') \<longrightarrow> s' = s)
   \<and> (fetch h v \<lparr>http_method = ''GET'', path = ''/transactions'', params = ps, body = Undefined\<rparr>
          = (Inr (json_response 500 db_down), v') \<longrightarrow>
        fst (fetchTransactions h ps (v, s)) = Inl db_down_error
        \<and> errors (snd (snd (fetchTransactions h ps (v, s)))) ''transactions''
            = Some (Some db_down_error)
        \<and> loading (snd (snd (fetchTransactions h ps (v, s)))) ''transactions'' = Some False)"
proof (intro conjI impI)
  assume run: "run_fetch h c (v, s) = (Inl e, v', s')"
  then show "fetch_api h c v = (Inl e, v')"
    by (auto simp: run_fetch_unfold intro: prod_eqI)
  note s' = run_fetch_failed [OF run]
  show "errors s' (fetch_key c) = Some (Some e)" "loading s' (fetch_key c) = Some False"
    by (simp_all add: s' setLoading_def setError_def)
next
  show "fst (run_fetch h c (v, s)) = fst (fetch_api h c v)"
    by (rule fetch_action_result)
next
  assume "api_seedDemoLoad h (default_to seed_default p) v = (Inl e, v')"
  note r = seedDemoLoad_failed [OF this]
  show "fst (seedDemoLoad h p (v, s)) = Inl e"
    "errors (snd (snd (seedDemoLoad h p (v, s)))) ''seed'' = Some (Some e)"
    "loading (snd (snd (seedDemoLoad h p (v, s)))) ''seed'' = Some False"
    by (simp_all add: r setLoading_def setError_def)
next
  assume r: "api_seedDemoLoad h (default_to seed_default p) v = (Inr res, v')"
  show "fst (seedDemoLoad h p (v, s)) = Inr res"
    "errors (snd (snd (seedDemoLoad h p (v, s)))) ''seed'' = Some None"
    "loading (snd (snd (seedDemoLoad h p (v, s)))) ''seed'' = Some False"
    by (rule seedDemoLoad_ok [OF r])+
next
  assume "api_seedDemoClear h v = (Inl e, v')"
  note r = seedDemoClear_failed [OF this]
  show "fst (seedDemoClear h (v, s)) = Inl e"
    "errors (snd (snd (seedDemoClear h (v, s)))) ''seed'' = Some (Some e)"
    "loading (snd (snd (seedDemoClear h (v, s)))) ''seed'' = Some False"
    by (simp_all add: r setLoading_def setError_def)
next
  assume "request h (write_request h w) v = (Inl e, v')"
  then show "run_write h w (v, s) = (Inl e, v', s)" by (rule run_write_rejected)
next
  assume "run_write h w (v, s) = (Inl e, v', s')"
  then show "s' = s" by (rule run_write_failed)
next
  assume r: "fetch h v \<lparr>http_method = ''GET'', path = ''/transactions'', params = ps, body = Undefined\<rparr>
          = (Inr (json_response 500 db_down), v')"
  show "fst (fetchTransactions h ps (v, s)) = Inl db_down_error"
    "errors (snd (snd (fetchTransactions h ps (v, s)))) ''transactions''
            = Some (Some db_down_error)"
    "loading (snd (snd (fetchTransactions h ps (v, s)))) ''transactions'' = Some False"
    by (rule fetchTransactions_db_down [OF r])+
qed

theorem failed_request_is_reported_witness:
  "fst (run_fetch replay FetchGoals (([], []), initial_store)) = Inl fetch_failed_error
   \<and> errors (snd (snd (run_fetch replay FetchGoals (([], []), initial_store)))) ''goals''
       = Some (Some fetch_failed_error)
   \<and> loading (snd (snd (run_fetch replay FetchGoals (([], []), initial_store)))) ''goals''
       = Some False
   \<and> fst (seedDemoLoad replay Undefined (([], []), initial_store)) = Inl fetch_failed_error
   \<and> errors (snd (snd (seedDemoLoad replay Undefined (([], []), initial_store)))) ''seed''
       = Some (Some fetch_failed_error)
   \<and> fst (seedDemoLoad replay Undefined (([], [Inr (json_response 200 (Obj []))]), initial_store))
       = Inr (Obj [])
   \<and> errors (snd (snd (seedDemoLoad replay Undefined
         (([], [Inr (json_response 200 (Obj []))]), initial_store)))) ''seed'' = Some None
   \<and> fst (seedDemoClear replay (([], []), initial_store)) = Inl fetch_failed_error
   \<and> errors (snd (snd (seedDemoClear replay (([], []), initial_store)))) ''seed''
       = Some (Some fetch_failed_error)
   \<and> run_write replay (DeleteGoal (Str ''g1'')) (([], []), initial_store) =
       (Inl fetch_failed_error,
        ([\<lparr>http_method = ''DELETE'', path = ''/goals/g1'', params = Undefined, body = Undefined\<rparr>], []),
        initial_store)
   \<and> fst (fetchTransactions replay Undefined (([], [Inr (json_response 500 db_down)]), initial_store))
       = Inl db_down_error
   \<and> errors (snd (snd (fetchTransactions replay Undefined
         (([], [Inr (json_response 500 db_down)]), initial_store)))) ''transactions''
       = Some (Some db_down_error)
   \<and> loading (snd (snd (fetchTransactions replay Undefined
         (([], [Inr (json_response 500 db_down)]), initial_store)))) ''transactions'' = Some False"
proof -
  let ?v0 = "([], []) :: http_request list \<times> (jsval + response) list"
  let ?goals = "\<lparr>http_method = ''GET'', path = ''/goals'', params = Undefined, body = Undefined\<rparr>"
  let ?del = "\<lparr>http_method = ''DELETE'', path = ''/goals/g1'', params = Undefined, body = Undefined\<rparr>"
  let ?R = "run_fetch replay FetchGoals (?v0, initial_store)"
  have "?R = (Inl fetch_failed_error, ([?goals], []), snd (snd ?R))"
    by (simp add: run_fetch_unfold api_replay_empty)
  from failed_request_is_reported
         [where h = replay and c = FetchGoals and v = ?v0 and s = initial_store
            and e = fetch_failed_error and v' = "([?goals], [])" and s' = "snd (snd ?R)",
          THEN conjunct1, rule_format, OF this]
  have a: "errors (snd (snd ?R)) ''goals'' = Some (Some fetch_failed_error)"
          "loading (snd (snd ?R)) ''goals'' = Some False"
    by simp_all
  have a0: "fst ?R = Inl fetch_failed_error"
    by (simp add: run_fetch_unfold api_replay_empty)
  have "api_seedDemoLoad replay (default_to seed_default Undefined) ?v0 =
          (Inl fetch_failed_error,
           ([\<lparr>http_method = ''POST'', path = ''/seed/demo/load'', params = Undefined,
              body = default_to seed_default Undefined\<rparr>], []))"
    by (simp add: api_replay_empty)
  from failed_request_is_reported
         [where h = replay and v = ?v0 and s = initial_store and p = Undefined
            and e = fetch_failed_error,
          THEN conjunct2, THEN conjunct2, THEN conjunct1, rule_format, OF this]
  have b: "fst (seedDemoLoad replay Undefined (?v0, initial_store)) = Inl fetch_failed_error"
    "errors (snd (snd (seedDemoLoad replay Undefined (?v0, initial_store)))) ''seed''
       = Some (Some fetch_failed_error)"
    by simp_all
  let ?v1 = "([], [Inr (json_response 200 (Obj []))])
               :: http_request list \<times> (jsval + response) list"
  have "api_seedDemoLoad replay (default_to seed_default Undefined) ?v1 =
          (Inr (Obj []),
           ([\<lparr>http_method = ''POST'', path = ''/seed/demo/load'', params = Undefined,
              body = default_to seed_default Undefined\<rparr>], []))"
    by (simp add: api_seedDemoLoad_def request_replay_json_ok)
  from failed_request_is_reported
         [where h = replay and v = ?v1 and s = initial_store and p = Undefined
            and res = "Obj []",
          THEN conjunct2, THEN conjunct2, THEN conjunct2, THEN conjunct1, rule_format, OF this]
  have c: "fst (seedDemoLoad replay Undefined (?v1, initial_store)) = Inr (Obj [])"
    "errors (snd (snd (seedDemoLoad replay Undefined (?v1, initial_store)))) ''seed'' = Some None"
    by simp_all
  have "api_seedDemoClear replay ?v0 =
          (Inl fetch_failed_error,
           ([\<lparr>http_method = ''DELETE'', path = ''/seed/demo/clear'', params = Undefined,
              body = Undefined\<rparr>], []))"
    by (simp add: api_replay_empty)
  from failed_request_is_reported
         [where h = replay and v = ?v0 and s = initial_store and e = fetch_failed_error,
          THEN conjunct2, THEN conjunct2, THEN conjunct2, THEN conjunct2, THEN conjunct1,
          rule_format, OF this]
  have d: "fst (seedDemoClear replay (?v0, initial_store)) = Inl fetch_failed_error"
    "errors (snd (snd (seedDemoClear replay (?v0, initial_store)))) ''seed''
       = Some (Some fetch_failed_error)"
    by simp_all
  have "request replay (write_request replay (DeleteGoal (Str ''g1''))) ?v0 =
          (Inl fetch_failed_error, ([?del], []))"
    by (simp add: request_replay_empty fetch_failed_error_def String_replay)
  from failed_request_is_reported
         [where h = replay and v = ?v0 and s = initial_store and e = fetch_failed_error
            and w = "DeleteGoal (Str ''g1'')",
          THEN conjunct2, THEN conjunct2, THEN conjunct2, THEN conjunct2, THEN conjunct2,
          THEN conjunct1, rule_format, OF this]
  have w: "run_write replay (DeleteGoal (Str ''g1'')) (?v0, initial_store) =
             (Inl fetch_failed_error, ([?del], []), initial_store)" .
  let ?v2 = "([], [Inr (json_response 500 db_down)])
               :: http_request list \<times> (jsval + response) list"
  have "fetch replay ?v2
          \<lparr>http_method = ''GET'', path = ''/transactions'', params = Undefined, body = Undefined\<rparr> =
          (Inr (json_response 500 db_down),
           ([\<lparr>http_method = ''GET'', path = ''/transactions'', params = Undefined,
              body = Undefined\<rparr>], []))"
    by (simp add: replay_def)
  from failed_request_is_reported
         [where h = replay and v = ?v2 and s = initial_store and ps = Undefined,
          THEN conjunct2, THEN conjunct2, THEN conjunct2, THEN conjunct2, THEN conjunct2,
          THEN conjunct2, THEN conjunct2, rule_format, OF this]
  have t: "fst (fetchTransactions replay Undefined (?v2, initial_store)) = Inl db_down_error"
    "errors (snd (snd (fetchTransactions replay Undefined (?v2, initial_store)))) ''transactions''
       = Some (Some db_down_error)"
    "loading (snd (snd (fetchTransactions replay Undefined (?v2, initial_store)))) ''transactions''
       = Some False"
    by simp_all
  show ?thesis
    using a0 a b c d w t by (intro conjI)
qed

text \<open>
  The claim as stated fails for the write actions: \<open>createTx\<close> on a network that is
  down throws the error, and \<open>errors.transactions\<close> is still \<open>null\<close>.
\<close>

theorem write_error_not_stored:
  "fst (run_write replay (CreateTx created_tx) (([], []), initial_store)) = Inl fetch_failed_error
   \<and> errors (snd (snd (run_write replay (CreateTx created_tx) (([], []), initial_store))))
        ''transactions'' = Some None"
  by (simp add: createTx_def api_createTransaction_def write_then_refetch_def
        request_replay_empty fetch_failed_error_def initial_flags)

subsection \<open>C1: writes and the re-fetch of the collection\<close>

text \<open>
  Claim C1, amended. For \<open>createTx\<close>, \<open>updateTx\<close>, \<open>deleteTx\<close>, \<open>createGoal\<close>,
  \<open>updateGoal\<close> and \<open>deleteGoal\<close>: when the mutating request and then the list request
  of the collection, sent with no parameters, both resolve, the action returns and the
  collection is the list payload (the empty list when the payload is falsy), whatever
  it held before; every other cached value, every flag and every error slot is
  unchanged. When the list request is rejected the action throws its error and the
  state is as it was. \<open>upsertBudget\<close> sends its one request, returns its outcome and
  leaves the state as it was.
\<close>

theorem write_refetches_collection:
  "(\<not> is_upsert w \<longrightarrow>
      request h (write_request h w) v = (Inr res0, v1) \<longrightarrow>
      request h (list_request (owning_collection w)) v1 = (Inr items, v2) \<longrightarrow>
      (\<exists>s'. run_write h w (v, s) = (Inr (returned w res0), v2, s')
            \<and> slice (owning_collection w) s' = js_or items (Arr [])
            \<and> (\<forall>n. n \<noteq> owning_collection w \<longrightarrow> slice n s' = slice n s)
            \<and> loading s' = loading s \<and> errors s' = errors s))
   \<and> (\<not> is_upsert w \<longrightarrow>
      request h (write_request h w) v = (Inr res0, v1) \<longrightarrow>
      request h (list_request (owning_collection w)) v1 = (Inl e, v2) \<longrightarrow>
      run_write h w (v, s) = (Inl e, v2, s))
   \<and> run_write h (UpsertBudget payload) (v, s) =
        (fst (request h (write_request h (UpsertBudget payload)) v),
         snd (request h (write_request h (UpsertBudget payload)) v), s)"
proof (intro conjI impI)
  assume w: "\<not> is_upsert w"
    and m: "request h (write_request h w) v = (Inr res0, v1)"
    and l: "request h (list_request (owning_collection w)) v1 = (Inr items, v2)"
  let ?put = "if owning_collection w = ''transactions'' then set_transactions else set_goals"
  have run: "run_write h w (v, s) = (Inr (returned w res0), v2, ?put items s)"
    using m l by (simp add: run_write_refetch [OF w] write_then_refetch_def)
  have "slice (owning_collection w) (?put items s) = js_or items (Arr [])"
    using owning_collection_cases [OF w]
    by (auto simp: slice_set_transactions slice_set_goals)
  moreover have "\<forall>n. n \<noteq> owning_collection w \<longrightarrow> slice n (?put items s) = slice n s"
    using owning_collection_cases [OF w]
    by (auto simp: slice_set_transactions slice_set_goals)
  moreover have "loading (?put items s) = loading s" "errors (?put items s) = errors s"
    by (simp_all add: flags_set_collection)
  ultimately show "\<exists>s'. run_write h w (v, s) = (Inr (returned w res0), v2, s')
            \<and> slice (owning_collection w) s' = js_or items (Arr [])
            \<and> (\<forall>n. n \<noteq> owning_collection w \<longrightarrow> slice n s' = slice n s)
            \<and> loading s' = loading s \<and> errors s' = errors s"
    using run by blast
next
  assume w: "\<not> is_upsert w"
    and m: "request h (write_request h w) v = (Inr res0, v1)"
    and l: "request h (list_request (owning_collection w)) v1 = (Inl e, v2)"
  show "run_write h w (v, s) = (Inl e, v2, s)"
    using m l by (simp add: run_write_refetch [OF w] write_then_refetch_def)
next
  show "run_write h (UpsertBudget payload) (v, s) =
        (fst (request h (write_request h (UpsertBudget payload)) v),
         snd (request h (write_request h (UpsertBudget payload)) v), s)"
    by (rule run_write_upsert)
qed

theorem write_refetches_collection_witness:
  "fst (run_write replay (CreateTx created_tx)
         (([], [Inr (json_response 201 created_tx), Inr (json_response 200 (Arr [created_tx]))]),
          stale_store)) = Inr created_tx
   \<and> fst (snd (run_write replay (CreateTx created_tx)
         (([], [Inr (json_response 201 created_tx), Inr (json_response 200 (Arr [created_tx]))]),
          stale_store))) =
       ([\<lparr>http_method = ''POST'', path = ''/transactions'', params = Undefined, body = created_tx\<rparr>,
         \<lparr>http_method = ''GET'', path = ''/transactions'', params = Undefined, body = Undefined\<rparr>],
        [])
   \<and> transactions (snd (snd (run_write replay (CreateTx created_tx)
         (([], [Inr (json_response 201 created_tx), Inr (json_response 200 (Arr [created_tx]))]),
          stale_store)))) = Arr [created_tx]
   \<and> transactions stale_store = Arr [Str ''stale'']"
proof -
  let ?post = "\<lparr>http_method = ''POST'', path = ''/transactions'', params = Undefined,
                 body = created_tx\<rparr>"
  let ?get = "\<lparr>http_method = ''GET'', path = ''/transactions'', params = Undefined,
                body = Undefined\<rparr>"
  let ?list = "Inr (json_response 200 (Arr [created_tx])) :: jsval + response"
  let ?v = "([], [Inr (json_response 201 created_tx), ?list])
              :: http_request list \<times> (jsval + response) list"
  have m: "request replay (write_request replay (CreateTx created_tx)) ?v =
             (Inr created_tx, ([?post], [?list]))"
    by (simp add: request_replay_json_ok)
  have l: "request replay (list_request (owning_collection (CreateTx created_tx)))
             ([?post], [?list]) = (Inr (Arr [created_tx]), ([?post, ?get], []))"
    by (simp add: request_replay_json_ok list_request_def)
  have u: "\<not> is_upsert (CreateTx created_tx)" by simp
  from write_refetches_collection
         [of "CreateTx created_tx" replay ?v created_tx "([?post], [?list])" "Arr [created_tx]"
             "([?post, ?get], [])" stale_store, THEN conjunct1, rule_format, OF u m l]
  obtain s' where
    run: "run_write replay (CreateTx created_tx) (?v, stale_store) =
            (Inr (returned (CreateTx created_tx) created_tx), ([?post, ?get], []), s')"
    and sl: "slice (owning_collection (CreateTx created_tx)) s' =
               js_or (Arr [created_tx]) (Arr [])"
    by blast
  have "transactions s' = Arr [created_tx]"
    using sl by (simp add: slice_def js_or_def)
  then show ?thesis
    using run by (simp add: stale_store_def)
qed

text \<open>
  The claim as stated fails for \<open>upsertBudget\<close>: one request is sent, the answer the
  list request would have had is never asked for, and \<open>budgets\<close> is what it was.
\<close>

theorem upsertBudget_no_refetch:
  "run_write replay (UpsertBudget (Obj [(''category'', Str ''Rent'')]))
     (([], [Inr (json_response 200 (Obj [(''category'', Str ''Rent'')])),
            Inr (json_response 200 (Arr [Obj [(''category'', Str ''Rent'')]]))]), stale_store) =
   (Inr (Obj [(''category'', Str ''Rent'')]),
    ([\<lparr>http_method = ''POST'', path = ''/budgets'', params = Undefined,
       body = Obj [(''category'', Str ''Rent'')]\<rparr>],
     [Inr (json_response 200 (Arr [Obj [(''category'', Str ''Rent'')]]))]),
    stale_store)
   \<and> budgets stale_store = Arr [Str ''stale'']"
  by (simp add: upsertBudget_def api_upsertBudget_def request_replay_json_ok stale_store_def)

section \<open>Properties of the transport client\<close>

subsection \<open>C7: the error object of a rejected request\<close>

lemma truthy_status_message: "truthy (status_message n)"
  by (simp add: status_message_def)

lemma truthy_js_or: "truthy b \<Longrightarrow> truthy (js_or a b)"
  by (simp add: js_or_def)

lemma truthy_Str: "truthy v \<Longrightarrow> v = Str t \<Longrightarrow> t \<noteq> []"
  by auto

lemma http_error_message:
  "message (http_error res) =
     (let data = parsed_body res in
      if truthy data \<and> truthy (get_prop data ''message'') then get_prop data ''message''
      else if truthy data \<and> truthy (get_prop data ''detail'') then get_prop data ''detail''
      else if truthy data \<and> truthy (get_prop data ''error'') then get_prop data ''error''
      else status_message (http_status res))"
  by (simp add: http_error_def Let_def js_or_def js_and_def)

text \<open>
  Claim C7, amended. An error of \<open>request\<close> built from a response that is not \<open>ok\<close> has
  the status code of the response as its status and the parsed body, when truthy, as its
  details (\<open>null\<close> otherwise); its message is the first truthy one of the body's
  \<open>message\<close>, \<open>detail\<close> and \<open>error\<close>, as the server sent it, and otherwise
  \<open>Request failed with status N\<close>; the message is truthy, so non-empty when it is a
  string. An error built from a rejected \<open>fetch\<close> is \<open>{message: "Request aborted",
  status: 0, details: null}\<close> for an \<open>AbortError\<close>; otherwise its message is the truthy
  \<open>message\<close> of the thrown object or else \<open>String(e)\<close>, its status is 0 and its details
  \<open>null\<close> unless the thrown object has a truthy \<open>status\<close> or \<open>details\<close> of its own.
\<close>

theorem request_error_shape:
  "(request_outcome str (Inr res) = Inl err \<longrightarrow>
      \<not> ok res
      \<and> status err = Num (Fin (real (http_status res)))
      \<and> details err = js_or (parsed_body res) Null
      \<and> message err =
          (let data = parsed_body res in
           if truthy data \<and> truthy (get_prop data ''message'') then get_prop data ''message''
           else if truthy data \<and> truthy (get_prop data ''detail'') then get_prop data ''detail''
           else if truthy data \<and> truthy (get_prop data ''error'') then get_prop data ''error''
           else status_message (http_status res))
      \<and> truthy (message err)
      \<and> (\<forall>t. message err = Str t \<longrightarrow> t \<noteq> []))
   \<and> (request_outcome str (Inl e) = Inl err \<longrightarrow>
        err = normalizeError str e
        \<and> (get_prop e ''name'' = Str ''AbortError'' \<longrightarrow>
             err = \<lparr>message = Str ''Request aborted'', status = Num (Fin 0), details = Null\<rparr>)
        \<and> (get_prop e ''name'' \<noteq> Str ''AbortError'' \<longrightarrow>
             message err =
               (if typeof_object e \<and> truthy (get_prop e ''message'') then get_prop e ''message''
                else Str (str e)))
        \<and> (\<not> truthy (get_prop e ''status'') \<longrightarrow> status err = Num (Fin 0))
        \<and> (\<not> truthy (get_prop e ''details'') \<longrightarrow> details err = Null)
        \<and> (str e \<noteq> [] \<longrightarrow> truthy (message err)))
   \<and> (\<exists>t. status_message n = Str t \<and> t \<noteq> [])"
proof (intro conjI impI allI)
  assume a: "request_outcome str (Inr res) = Inl err"
  then show nok: "\<not> ok res" by (auto simp: request_outcome_def split: if_splits)
  with a have err: "err = http_error res" by (simp add: request_outcome_def)
  show "status err = Num (Fin (real (http_status res)))"
    by (simp add: err http_error_def Let_def)
  show "details err = js_or (parsed_body res) Null"
    by (simp add: err http_error_def Let_def)
  show m: "message err =
          (let data = parsed_body res in
           if truthy data \<and> truthy (get_prop data ''message'') then get_prop data ''message''
           else if truthy data \<and> truthy (get_prop data ''detail'') then get_prop data ''detail''
           else if truthy data \<and> truthy (get_prop data ''error'') then get_prop data ''error''
           else status_message (http_status res))"
    by (simp only: err http_error_message)
  show t: "truthy (message err)"
    by (simp add: err http_error_def Let_def truthy_js_or truthy_status_message)
  fix t assume "message err = Str t"
  with t show "t \<noteq> []" by (rule truthy_Str)
next
  assume a: "request_outcome str (Inl e) = Inl err"
  then show err: "err = normalizeError str e" by (simp add: request_outcome_def)
  show "err = \<lparr>message = Str ''Request aborted'', status = Num (Fin 0), details = Null\<rparr>"
    if "get_prop e ''name'' = Str ''AbortError''"
    using that by (simp add: err normalizeError_def)
  show "message err =
               (if typeof_object e \<and> truthy (get_prop e ''message'') then get_prop e ''message''
                else Str (str e))"
    if "get_prop e ''name'' \<noteq> Str ''AbortError''"
    using that by (simp add: err normalizeError_def)
  show "status err = Num (Fin 0)" if "\<not> truthy (get_prop e ''status'')"
    using that by (simp add: err normalizeError_def js_or_def)
  show "details err = Null" if "\<not> truthy (get_prop e ''details'')"
    using that by (simp add: err normalizeError_def js_or_def)
  show "truthy (message err)" if "str e \<noteq> []"
    using that by (simp add: err normalizeError_def)
next
  show "\<exists>t. status_message n = Str t \<and> t \<noteq> []"
    by (simp add: status_message_def)
qed

theorem request_error_shape_witness:
  "request_outcome sample_String (Inr (json_response 500 db_down)) = Inl db_down_error
   \<and> \<not> ok (json_response 500 db_down)
   \<and> status db_down_error = Num (Fin 500)
   \<and> details db_down_error = db_down
   \<and> message db_down_error = Str ''db down''
   \<and> request_outcome sample_String (Inl network_failure) = Inl fetch_failed_error
   \<and> message fetch_failed_error = Str ''Failed to fetch''
   \<and> status fetch_failed_error = Num (Fin 0)
   \<and> details fetch_failed_error = Null
   \<and> request_outcome sample_String
        (Inl (Obj [(''name'', Str ''AbortError''), (''message'', Str ''The user aborted a request.'')]))
       = Inl \<lparr>message = Str ''Request aborted'', status = Num (Fin 0), details = Null\<rparr>"
proof -
  have r: "request_outcome sample_String (Inr (json_response 500 db_down)) = Inl db_down_error"
    by (simp add: request_outcome_def http_error_db_down [unfolded db_down_def [symmetric]]
          db_down_error_def)
       (simp add: json_response_def)
  have n: "request_outcome sample_String (Inl network_failure) = Inl fetch_failed_error"
    by (simp add: request_outcome_def normalizeError_def network_failure_def
          fetch_failed_error_def js_or_def)
  let ?abort = "Obj [(''name'', Str ''AbortError''),
                     (''message'', Str ''The user aborted a request.'')]"
  have ab: "request_outcome sample_String (Inl ?abort) = Inl (normalizeError sample_String ?abort)"
    by (simp add: request_outcome_def)
  note t1 = request_error_shape [where str = sample_String and res = "json_response 500 db_down"
              and err = db_down_error, THEN conjunct1, rule_format, OF r]
  note t2 = request_error_shape [where str = sample_String and e = network_failure
              and err = fetch_failed_error, THEN conjunct2, THEN conjunct1, rule_format, OF n]
  note t3 = request_error_shape [where str = sample_String and e = ?abort
              and err = "normalizeError sample_String ?abort",
              THEN conjunct2, THEN conjunct1, rule_format, OF ab]
  have "normalizeError sample_String ?abort =
          \<lparr>message = Str ''Request aborted'', status = Num (Fin 0), details = Null\<rparr>"
    using t3 by simp
  moreover have "\<not> ok (json_response 500 db_down)" using t1 by simp
  moreover have "status db_down_error = Num (Fin 500)"
    using t1 by (simp add: json_response_def)
  moreover have "details db_down_error = db_down"
    by (simp add: db_down_error_def)
  moreover have "message db_down_error = Str ''db down''"
    by (simp add: db_down_error_def)
  moreover have "message fetch_failed_error = Str ''Failed to fetch''"
    using t2 by (simp add: network_failure_def)
  moreover have "status fetch_failed_error = Num (Fin 0)"
    using t2 by (simp add: network_failure_def)
  moreover have "details fetch_failed_error = Null"
    using t2 by (simp add: network_failure_def)
  ultimately show ?thesis using r n ab by simp
qed

text \<open>
  The claim as stated fails where the server's field is not a string: a validation
  error with a list under \<open>detail\<close> makes the list the message.
\<close>

theorem message_need_not_be_string:
  "request_outcome sample_String (Inr (json_response 422 validation_body)) =
     Inl \<lparr>message = Arr [Obj [(''msg'', Str ''field required'')]],
          status = Num (Fin 422), details = validation_body\<rparr>"
  by (simp add: request_outcome_def json_response_def http_error_def parsed_body_def
        validation_body_def js_or_def js_and_def)

section \<open>Properties of the derived metrics\<close>

subsection \<open>C5: the utilisation tier\<close>

lemma js_Number_or_zero: "js_Number coerce (js_or (Num (Fin p)) (Num (Fin 0))) = Fin p"
  by (simp add: js_or_def)

lemma tone_Fin:
  "tone (Fin p) = (if 90 < p then ''danger'' else if 70 \<le> p then ''warn'' else ''success'')"
  by (auto simp: tone_def js_le_def)

text \<open>
  Claim C5. For a row of the budget summary whose \<open>utilization_pct\<close> is the number
  \<open>p\<close>, the tier is \<open>danger\<close> exactly when \<open>p > 90\<close>, \<open>success\<close> exactly when \<open>p < 70\<close>
  and \<open>warn\<close> exactly when \<open>70 \<le> p \<le> 90\<close>; 95 gives \<open>danger\<close>, 70 gives \<open>warn\<close> and
  69.9 gives \<open>success\<close>.
\<close>

theorem tier_thresholds:
  "(get_prop row ''utilization_pct'' = Num (Fin p) \<longrightarrow>
      (tone (row_pct coerce row) = ''danger'' \<longleftrightarrow> 90 < p)
      \<and> (tone (row_pct coerce row) = ''success'' \<longleftrightarrow> p < 70)
      \<and> (tone (row_pct coerce row) = ''warn'' \<longleftrightarrow> 70 \<le> p \<and> p \<le> 90))
   \<and> tone (Fin 95) = ''danger'' \<and> tone (Fin 70) = ''warn'' \<and> tone (Fin (699 / 10)) = ''success''"
proof (intro conjI impI)
  assume "get_prop row ''utilization_pct'' = Num (Fin p)"
  then have pct: "row_pct coerce row = Fin p"
    by (simp add: row_pct_def js_Number_or_zero)
  show "tone (row_pct coerce row) = ''danger'' \<longleftrightarrow> 90 < p"
    by (simp add: pct tone_Fin)
  show "tone (row_pct coerce row) = ''success'' \<longleftrightarrow> p < 70"
    by (auto simp: pct tone_Fin)
  show "tone (row_pct coerce row) = ''warn'' \<longleftrightarrow> 70 \<le> p \<and> p \<le> 90"
    by (auto simp: pct tone_Fin)
qed (simp_all add: tone_Fin)

theorem tier_thresholds_witness:
  "tone (row_pct (\<lambda>v. NaN) (Obj [(''category'', Str ''Rent''), (''utilization_pct'', Num (Fin 95))]))
     = ''danger''
   \<and> tone (row_pct (\<lambda>v. NaN) (Obj [(''category'', Str ''Food''), (''utilization_pct'', Num (Fin 70))]))
     = ''warn''
   \<and> tone (row_pct (\<lambda>v. NaN)
        (Obj [(''category'', Str ''Fun''), (''utilization_pct'', Num (Fin (699 / 10)))]))
     = ''success''"
proof -
  have a: "get_prop (Obj [(''category'', Str ''Rent''), (''utilization_pct'', Num (Fin 95))])
             ''utilization_pct'' = Num (Fin 95)"
    and b: "get_prop (Obj [(''category'', Str ''Food''), (''utilization_pct'', Num (Fin 70))])
             ''utilization_pct'' = Num (Fin 70)"
    and c: "get_prop (Obj [(''category'', Str ''Fun''), (''utilization_pct'', Num (Fin (699 / 10)))])
             ''utilization_pct'' = Num (Fin (699 / 10))"
    by simp_all
  from tier_thresholds [THEN conjunct1, rule_format, OF a, of "\<lambda>v. NaN"]
    tier_thresholds [THEN conjunct1, rule_format, OF b, of "\<lambda>v. NaN"]
    tier_thresholds [THEN conjunct1, rule_format, OF c, of "\<lambda>v. NaN"]
  show ?thesis by simp
qed

subsection \<open>C6: the progress of a goal\<close>

lemma rne_ge: "of_int k \<le> m \<Longrightarrow> k \<le> rne m"
proof -
  assume "of_int k \<le> m"
  then have "k \<le> \<lfloor>m\<rfloor>" by (simp add: le_floor_iff)
  then show ?thesis by (simp add: rne_def Let_def)
qed

lemma rne_le: "m \<le> of_int k \<Longrightarrow> rne m \<le> k"
proof (cases "\<lfloor>m\<rfloor> = k")
  case True
  assume "m \<le> of_int k"
  with True have "m = of_int \<lfloor>m\<rfloor>" by linarith
  then have "m - of_int \<lfloor>m\<rfloor> = 0" by simp
  then show ?thesis using True by (simp add: rne_def Let_def)
next
  case False
  assume "m \<le> of_int k"
  then have "\<lfloor>m\<rfloor> \<le> k" by (simp add: floor_le_iff)
  with False have "\<lfloor>m\<rfloor> + 1 \<le> k" by simp
  then show ?thesis by (simp add: rne_def Let_def)
qed

lemma rne_of_int: "rne (of_int k) = k"
  by (simp add: rne_def)

lemma ulp_pos: "0 < ulp x"
  by (simp add: ulp_def)

lemma rnd_le:
  assumes "x \<le> B" "B / ulp x = of_int k"
  shows "rnd x \<le> B"
proof -
  have "x / ulp x \<le> of_int k"
    using assms ulp_pos [of x] by (simp add: divide_right_mono flip: assms(2))
  then have "rne (x / ulp x) \<le> k" by (rule rne_le)
  then have "of_int (rne (x / ulp x)) * ulp x \<le> of_int k * ulp x"
    using ulp_pos [of x] by simp
  also have "of_int k * ulp x = B"
    using assms(2) ulp_pos [of x] by (simp add: field_simps)
  finally show ?thesis by (simp add: rnd_def)
qed

lemma rnd_ge:
  assumes "B \<le> x" "B / ulp x = of_int k"
  shows "B \<le> rnd x"
proof -
  have "of_int k \<le> x / ulp x"
    using assms ulp_pos [of x] by (simp add: divide_right_mono flip: assms(2))
  then have "k \<le> rne (x / ulp x)" by (rule rne_ge)
  then have "of_int k * ulp x \<le> of_int (rne (x / ulp x)) * ulp x"
    using ulp_pos [of x] by simp
  moreover have "of_int k * ulp x = B"
    using assms(2) ulp_pos [of x] by (simp add: field_simps)
  ultimately show ?thesis by (simp add: rnd_def)
qed

lemma rnd_exact: "x / ulp x = of_int k \<Longrightarrow> rnd x = x"
  using rnd_le [of x x k] rnd_ge [of x x k] by simp


lemma exponent_le:
  assumes "x \<noteq> 0" "\<bar>x\<bar> < 2 powr of_int (E + 1)" "- 1022 \<le> E"
  shows "max \<lfloor>log 2 \<bar>x\<bar>\<rfloor> (- 1022) \<le> E"
proof -
  have "log 2 \<bar>x\<bar> < of_int (E + 1)"
    using assms(1,2) by (simp add: log_less_iff)
  then have "\<lfloor>log 2 \<bar>x\<bar>\<rfloor> < E + 1" by (simp only: floor_less_iff)
  with assms(3) show ?thesis by simp
qed

lemma exponent_ge:
  assumes "2 powr of_int E \<le> \<bar>x\<bar>"
  shows "E \<le> max \<lfloor>log 2 \<bar>x\<bar>\<rfloor> (- 1022)"
proof -
  have "0 < \<bar>x\<bar>" using assms by (smt (verit) powr_gt_zero)
  then have "of_int E \<le> log 2 \<bar>x\<bar>"
    using assms by (simp add: le_log_iff)
  then have "E \<le> \<lfloor>log 2 \<bar>x\<bar>\<rfloor>" by (simp add: le_floor_iff)
  then show ?thesis by simp
qed

lemma grid_int:
  assumes "e \<le> s + 52"
  shows "\<exists>k. of_int a * 2 powr of_int s / 2 powr of_int (e - 52) = real_of_int k"
proof -
  define n where "n = s - (e - 52)"
  have n: "0 \<le> n" using assms by (simp add: n_def)
  have "(2::real) powr of_int s / 2 powr of_int (e - 52) = 2 powr (of_int s - of_int (e - 52))"
    by (simp only: powr_diff)
  also have "of_int s - of_int (e - 52) = real_of_int n" by (simp add: n_def)
  also have "(2::real) powr of_int n = 2 ^ nat n"
    using n by (simp add: powr_real_of_int)
  finally have q: "(2::real) powr of_int s / 2 powr of_int (e - 52) = 2 ^ nat n" .
  have "real_of_int a * 2 powr of_int s / 2 powr of_int (e - 52)
          = real_of_int a * (2 powr of_int s / 2 powr of_int (e - 52))"
    by (simp only: times_divide_eq_right)
  also have "\<dots> = of_int (a * 2 ^ nat n)"
    by (simp only: q) simp
  finally show ?thesis by blast
qed

lemma rnd_le_grid:
  assumes "x \<noteq> 0" "x \<le> of_int a * 2 powr of_int s" "\<bar>x\<bar> < 2 powr of_int (E + 1)"
    "- 1022 \<le> E" "E \<le> s + 52"
  shows "rnd x \<le> of_int a * 2 powr of_int s"
proof -
  have "max \<lfloor>log 2 \<bar>x\<bar>\<rfloor> (- 1022) \<le> s + 52"
    using exponent_le [OF assms(1,3,4)] assms(5) by simp
  from grid_int [OF this, of a]
  obtain k where "of_int a * 2 powr of_int s / ulp x = of_int k"
    by (auto simp: ulp_def)
  with assms(2) show ?thesis by (rule rnd_le)
qed

lemma rnd_ge_grid:
  assumes "x \<noteq> 0" "of_int a * 2 powr of_int s \<le> x" "\<bar>x\<bar> < 2 powr of_int (E + 1)"
    "- 1022 \<le> E" "E \<le> s + 52"
  shows "of_int a * 2 powr of_int s \<le> rnd x"
proof -
  have "max \<lfloor>log 2 \<bar>x\<bar>\<rfloor> (- 1022) \<le> s + 52"
    using exponent_le [OF assms(1,3,4)] assms(5) by simp
  from grid_int [OF this, of a]
  obtain k where "of_int a * 2 powr of_int s / ulp x = of_int k"
    by (auto simp: ulp_def)
  with assms(2) show ?thesis by (rule rnd_ge)
qed

lemma rnd_ge_pow:
  assumes "2 powr of_int E \<le> x" "- 1074 \<le> E"
  shows "2 powr of_int E \<le> rnd x"
proof -
  have x: "0 < x" using assms by (smt (verit) powr_gt_zero)
  let ?e = "\<lfloor>log 2 \<bar>x\<bar>\<rfloor>"
  let ?m = "max ?e (- 1022)"
  have E: "E \<le> ?e"
  proof -
    have "of_int E \<le> log 2 \<bar>x\<bar>" using assms x by (simp add: le_log_iff)
    then show ?thesis by (simp add: le_floor_iff)
  qed
  have low: "2 powr of_int ?e \<le> x"
  proof -
    have "of_int ?e \<le> log 2 x" using x by simp
    then show ?thesis using x le_log_iff [of 2 x "of_int ?e"] by simp
  qed
  have "?m \<le> ?e + 52" using E assms(2) by simp
  from grid_int [OF this, of 1]
  obtain k where "of_int 1 * 2 powr of_int ?e / ulp x = of_int k"
    by (auto simp: ulp_def)
  then have k: "2 powr of_int ?e / ulp x = of_int k" by simp
  have "2 powr of_int ?e \<le> rnd x" using low k by (rule rnd_ge)
  moreover have "2 powr of_int E \<le> (2::real) powr of_int ?e"
    using E by simp
  ultimately show ?thesis by linarith
qed

lemma rnd_nonneg: "0 \<le> x \<Longrightarrow> 0 \<le> rnd x"
  using rnd_ge [of 0 x 0] by simp

lemma rnd_le_100: "0 < x \<Longrightarrow> x \<le> 100 \<Longrightarrow> rnd x \<le> 100"
  using rnd_le_grid [of x 100 0 6] by simp

lemma rnd_ge_100: assumes "100 \<le> x" shows "100 \<le> rnd x"
proof (cases "x < 128")
  case True
  then show ?thesis using assms rnd_ge_grid [of x 100 0 6] by simp
next
  case False
  then have "2 powr of_int 7 \<le> x" by simp
  from rnd_ge_pow [OF this] show ?thesis by simp
qed

lemma rnd_ge_1: assumes "1 \<le> x" shows "1 \<le> rnd x"
  using rnd_ge_pow [of 0 x] assms by simp

lemma rnd_below_100: assumes "0 < x" "x \<le> 999 / 10" shows "rnd x < 100"
proof -
  have "rnd x \<le> of_int 1599 * 2 powr of_int (- 4)"
    using assms by (intro rnd_le_grid [where E = 6]) (simp_all add: powr_minus)
  then show ?thesis by (simp add: powr_minus)
qed


lemma rnd_nonpos: "x \<le> 0 \<Longrightarrow> rnd x \<le> 0"
  using rnd_le [of x 0 0] by simp

lemma fl_not_NaN: "fl x \<noteq> NaN"
  by (simp add: fl_def)

lemma fl_small: assumes "0 \<le> x" "x \<le> 100" shows "fl x = Fin (rnd x)" "0 \<le> rnd x" "rnd x \<le> 100"
proof -
  show nn: "0 \<le> rnd x" using assms(1) by (rule rnd_nonneg)
  show le: "rnd x \<le> 100"
  proof (cases "x = 0")
    case True
    then show ?thesis using rnd_le [of 0 0 0] by simp
  next
    case False
    then show ?thesis using assms rnd_le_100 [of x] by simp
  qed
  have "\<bar>rnd x\<bar> < 2 ^ 1024" using nn le by simp
  moreover have "rnd 0 = 0" using rnd_exact [of 0 0] by simp
  ultimately show "fl x = Fin (rnd x)" by (simp add: fl_def)
qed

lemma fl_100: "fl 100 = Fin 100"
proof -
  have "rnd 100 = 100" using rnd_le_100 [of 100] rnd_ge_100 [of 100] by simp
  then show ?thesis using fl_small(1) [of 100] by simp
qed

lemma fl_ge:
  assumes "0 < B" "B \<le> rnd x" "0 < x"
  shows "fl x = PosInf \<or> (\<exists>y. fl x = Fin y \<and> B \<le> y)"
  using assms by (auto simp: fl_def)

lemma times_100_not_NaN: "q \<noteq> NaN \<Longrightarrow> js_mul q (Fin 100) \<noteq> NaN"
  by (cases q) (simp_all add: fl_not_NaN)

lemma div_not_NaN: "t \<noteq> 0 \<Longrightarrow> js_div (Fin c) (Fin t) \<noteq> NaN"
  by (simp add: fl_not_NaN)

lemma clamped_percentage:
  assumes "p \<noteq> NaN"
  shows "\<exists>x. Math_max (Fin 0) (Math_min (Fin 100) p) = Fin x \<and> 0 \<le> x \<and> x \<le> 100
            \<and> (\<forall>z. p = Fin z \<longrightarrow> x = clamp z 0 100)
            \<and> (p = PosInf \<longrightarrow> x = 100) \<and> (p = NegInf \<longrightarrow> x = 0)"
  using assms by (cases p) (auto simp: Math_max_def Math_min_def clamp_def)

lemma round_tenth_nonneg: "0 \<le> y \<Longrightarrow> round_tenth y = of_int \<lfloor>y * 10 + 1 / 2\<rfloor> / 10"
  by (cases "y = 0") (simp_all add: round_tenth_def)

lemma round_tenth_bounds:
  assumes "0 \<le> y" "y \<le> 100"
  shows "0 \<le> round_tenth y" "round_tenth y \<le> 100"
proof -
  have "0 \<le> \<lfloor>y * 10 + 1 / 2\<rfloor>" using assms by simp
  then show "0 \<le> round_tenth y"
    using assms by (simp add: round_tenth_nonneg)
  have "y * 10 + 1 / 2 < 1001" using assms by simp
  then have "\<lfloor>y * 10 + 1 / 2\<rfloor> < 1001" by (simp add: floor_less_iff)
  then have "\<lfloor>y * 10 + 1 / 2\<rfloor> \<le> 1000" by simp
  then have "real_of_int \<lfloor>y * 10 + 1 / 2\<rfloor> \<le> 1000" by linarith
  then show "round_tenth y \<le> 100"
    using assms by (simp add: round_tenth_nonneg)
qed

lemma round_tenth_full:
  assumes "0 \<le> y" "y \<le> 100"
  shows "round_tenth y = 100 \<longleftrightarrow> 1999 / 20 \<le> y"
proof -
  have up: "y * 10 + 1 / 2 < 1001" using assms by simp
  have "round_tenth y = 100 \<longleftrightarrow> real_of_int \<lfloor>y * 10 + 1 / 2\<rfloor> = 1000"
    using assms by (simp add: round_tenth_nonneg)
  also have "\<dots> \<longleftrightarrow> \<lfloor>y * 10 + 1 / 2\<rfloor> = 1000"
    by linarith
  also have "\<dots> \<longleftrightarrow> 1000 \<le> y * 10 + 1 / 2"
    using up by (auto simp: floor_eq_iff)
  also have "\<dots> \<longleftrightarrow> 1999 / 20 \<le> y" by auto
  finally show ?thesis .
qed

lemma round_tenth_below:
  assumes "0 \<le> y" "y \<le> 100" "round_tenth y \<noteq> 100"
  shows "round_tenth y \<le> 999 / 10"
proof -
  define f where "f = \<lfloor>y * 10 + 1 / 2\<rfloor>"
  have r: "round_tenth y = of_int f / 10"
    using assms(1) by (simp add: round_tenth_nonneg f_def)
  have "y * 10 + 1 / 2 < 1001" using assms by simp
  then have "f < 1001" unfolding f_def by (simp only: floor_less_iff of_int_numeral)
  moreover have "f \<noteq> 1000" using assms(3) by (auto simp: r)
  ultimately have "f \<le> 999" by linarith
  then have "real_of_int f \<le> 999" by linarith
  then show ?thesis by (simp add: r)
qed

lemma fl_round_tenth:
  assumes "0 \<le> x" "x \<le> 100"
  shows "\<exists>p. fl (round_tenth x) = Fin p \<and> 0 \<le> p \<and> p \<le> 100"
    and "fl (round_tenth x) = Fin 100 \<longleftrightarrow> 1999 / 20 \<le> x"
proof -
  note b = round_tenth_bounds [OF assms]
  note f = fl_small [OF b]
  show "\<exists>p. fl (round_tenth x) = Fin p \<and> 0 \<le> p \<and> p \<le> 100"
    using f by blast
  show "fl (round_tenth x) = Fin 100 \<longleftrightarrow> 1999 / 20 \<le> x"
  proof
    assume "1999 / 20 \<le> x"
    then have "round_tenth x = 100" using round_tenth_full [OF assms] by blast
    then show "fl (round_tenth x) = Fin 100" by (simp add: fl_100)
  next
    assume a: "fl (round_tenth x) = Fin 100"
    show "1999 / 20 \<le> x"
    proof (rule ccontr)
      assume "\<not> 1999 / 20 \<le> x"
      then have ne: "round_tenth x \<noteq> 100" using round_tenth_full [OF assms] by blast
      have le: "round_tenth x \<le> 999 / 10" by (rule round_tenth_below [OF assms ne])
      have "rnd (round_tenth x) < 100"
      proof (cases "round_tenth x = 0")
        case True
        then show ?thesis using rnd_exact [of 0 0] by simp
      next
        case False
        with b(1) have "0 < round_tenth x" by simp
        then show ?thesis using le by (rule rnd_below_100)
      qed
      with a f(1) show False by simp
    qed
  qed
qed

lemma computeProgress_unfold:
  assumes "0 < t"
  shows "computeProgress coerce (Num (Fin c)) (Num (Fin t)) =
           toFixed1_Number
             (Math_max (Fin 0) (Math_min (Fin 100) (js_mul (js_div (Fin c) (Fin t)) (Fin 100))))"
proof -
  have c: "js_Number coerce (js_or (default_to (Num (Fin 0)) (Num (Fin c))) (Num (Fin 0))) = Fin c"
    by (simp add: default_to_def js_or_def)
  have t: "js_Number coerce (js_or (default_to (Num (Fin 0)) (Num (Fin t))) (Num (Fin 0))) = Fin t"
    by (simp add: default_to_def js_or_def)
  have nle: "\<not> js_le (Fin t) (Fin 0)" using assms by (simp add: js_le_def)
  show ?thesis by (simp only: computeProgress_def Let_def c t nle if_False)
qed

lemma computeProgress_nonpositive:
  "t \<le> 0 \<Longrightarrow> computeProgress coerce (Num (Fin c)) (Num (Fin t)) = Fin 0"
  by (auto simp: computeProgress_def default_to_def js_or_def js_le_def)

lemma full_when_reached:
  assumes "0 < t" "t \<le> c"
  shows "Math_max (Fin 0) (Math_min (Fin 100) (js_mul (js_div (Fin c) (Fin t)) (Fin 100))) = Fin 100"
proof -
  have q: "1 \<le> c / t" using assms by simp
  then have "0 < c / t" by simp
  from fl_ge [OF _ rnd_ge_1 [OF q] this]
  have "fl (c / t) = PosInf \<or> (\<exists>y. fl (c / t) = Fin y \<and> 1 \<le> y)" by simp
  then have "js_mul (fl (c / t)) (Fin 100) = PosInf
             \<or> (\<exists>z. js_mul (fl (c / t)) (Fin 100) = Fin z \<and> 100 \<le> z)"
  proof
    assume "fl (c / t) = PosInf"
    then show ?thesis by simp
  next
    assume "\<exists>y. fl (c / t) = Fin y \<and> 1 \<le> y"
    then obtain y where y: "fl (c / t) = Fin y" "1 \<le> y" by blast
    then have "100 \<le> y * 100" by simp
    from fl_ge [OF _ rnd_ge_100 [OF this]] y(2)
    have "fl (y * 100) = PosInf \<or> (\<exists>z. fl (y * 100) = Fin z \<and> 100 \<le> z)" by simp
    then show ?thesis by (simp add: y(1))
  qed
  moreover have "js_div (Fin c) (Fin t) = fl (c / t)" using assms by simp
  ultimately show ?thesis
    by (auto simp: Math_max_def Math_min_def)
qed


lemma ulp_eval:
  assumes "2 powr of_int e \<le> \<bar>x\<bar>" "\<bar>x\<bar> < 2 powr of_int (e + 1)" "- 1022 \<le> e"
  shows "ulp x = 2 powr of_int (e - 52)"
proof -
  have "0 < \<bar>x\<bar>" using assms(1) by (smt (verit) powr_gt_zero)
  then have "\<lfloor>log 2 \<bar>x\<bar>\<rfloor> = e"
    using assms(1,2) floor_log_eq_powr_iff [of "\<bar>x\<bar>" 2 e] by simp
  then show ?thesis using assms(3) by (simp add: ulp_def)
qed

lemma fl_eval:
  assumes "0 < x" "x \<le> 100" "2 powr of_int e \<le> x" "x < 2 powr of_int (e + 1)" "- 1022 \<le> e"
    "rne (x * 2 powr of_int (52 - e)) = M"
  shows "fl x = Fin (of_int M * 2 powr of_int (e - 52))"
proof -
  have u: "ulp x = 2 powr of_int (e - 52)"
    using assms(1,3,4,5) by (intro ulp_eval) simp_all
  have d: "x / ulp x = x * 2 powr of_int (52 - e)"
    by (simp add: u powr_diff field_simps)
  have "rne (x / ulp x) = M" by (simp only: d assms(6))
  then have "rnd x = of_int M * ulp x" by (simp only: rnd_def)
  then have "rnd x = of_int M * 2 powr of_int (e - 52)" by (simp only: u)
  then show ?thesis using fl_small(1) [of x] assms(1,2) by simp
qed

lemma div_23_80: "js_div (Fin 23) (Fin 80) = Fin (5179139571476070 / 2 ^ 54)"
proof -
  have "fl (23 / 80) = Fin (of_int 5179139571476070 * 2 powr of_int (- 2 - 52))"
    by (rule fl_eval) (simp_all add: powr_minus rne_def)
  then show ?thesis by (simp add: powr_minus field_simps)
qed


lemma mul_23_80: "js_mul (Fin (5179139571476070 / 2 ^ 54)) (Fin 100) = Fin (8092405580431359 / 2 ^ 48)"
proof -
  have "fl (5179139571476070 / 2 ^ 54 * 100) = Fin (of_int 8092405580431359 * 2 powr of_int (4 - 52))"
    by (rule fl_eval) (simp_all add: powr_minus rne_def)
  then show ?thesis by (simp add: powr_minus field_simps)
qed

lemma fl_287: "fl (287 / 10) = Fin (8078331831595827 / 2 ^ 48)"
proof -
  have "fl (287 / 10) = Fin (of_int 8078331831595827 * 2 powr of_int (4 - 52))"
    by (rule fl_eval) (simp_all add: powr_minus rne_def)
  then show ?thesis by (simp add: powr_minus field_simps)
qed

lemma toFixed1_small:
  assumes "\<bar>x\<bar> < 10 ^ 21" "round_tenth x = y"
  shows "toFixed1_Number (Fin x) = fl y"
  using assms by simp

lemma progress_23_of_80:
  "computeProgress coerce (Num (Fin 23)) (Num (Fin 80)) = fl (287 / 10)"
proof -
  have m: "Math_max (Fin 0) (Math_min (Fin 100) (Fin (8092405580431359 / 2 ^ 48)))
          = Fin (8092405580431359 / 2 ^ 48)"
    by (simp add: Math_max_def Math_min_def)
  have "computeProgress coerce (Num (Fin 23)) (Num (Fin 80)) =
          toFixed1_Number
            (Math_max (Fin 0) (Math_min (Fin 100) (js_mul (js_div (Fin 23) (Fin 80)) (Fin 100))))"
    by (rule computeProgress_unfold) simp
  also have "\<dots> = toFixed1_Number (Fin (8092405580431359 / 2 ^ 48))"
    by (simp only: div_23_80 mul_23_80 m)
  also have "\<dots> = fl (287 / 10)"
    by (rule toFixed1_small) (simp_all add: round_tenth_def)
  finally show ?thesis .
qed

lemma div_9999: "js_div (Fin 9999) (Fin 10000) = Fin (9006298534815518 / 2 ^ 53)"
proof -
  have "fl (9999 / 10000) = Fin (of_int 9006298534815518 * 2 powr of_int (- 1 - 52))"
    by (rule fl_eval) (simp_all add: powr_minus rne_def)
  then show ?thesis by (simp add: powr_minus field_simps)
qed

lemma mul_9999: "js_mul (Fin (9006298534815518 / 2 ^ 53)) (Fin 100) = Fin (7036170730324623 / 2 ^ 46)"
proof -
  have "fl (9006298534815518 / 2 ^ 53 * 100) = Fin (of_int 7036170730324623 * 2 powr of_int (6 - 52))"
    by (rule fl_eval) (simp_all add: powr_minus rne_def)
  then show ?thesis by (simp add: powr_minus field_simps)
qed

lemma div_250: "js_div (Fin 250) (Fin 1000) = Fin (1 / 4)"
proof -
  have "fl (250 / 1000) = Fin (of_int 4503599627370496 * 2 powr of_int (- 2 - 52))"
    by (rule fl_eval) (simp_all add: powr_minus rne_def)
  then show ?thesis by (simp add: powr_minus field_simps)
qed

lemma fl_25: "fl 25 = Fin 25"
proof -
  have "fl 25 = Fin (of_int 7036874417766400 * 2 powr of_int (4 - 52))"
    by (rule fl_eval) (simp_all add: powr_minus rne_def)
  then show ?thesis by (simp add: powr_minus field_simps)
qed

lemma progress_250_of_1000:
  "computeProgress coerce (Num (Fin 250)) (Num (Fin 1000)) = Fin 25"
proof -
  have p: "js_mul (Fin (1 / 4)) (Fin 100) = Fin 25" using fl_25 by simp
  have m: "Math_max (Fin 0) (Math_min (Fin 100) (Fin 25)) = Fin 25"
    by (simp add: Math_max_def Math_min_def)
  have "computeProgress coerce (Num (Fin 250)) (Num (Fin 1000)) =
          toFixed1_Number
            (Math_max (Fin 0) (Math_min (Fin 100) (js_mul (js_div (Fin 250) (Fin 1000)) (Fin 100))))"
    by (rule computeProgress_unfold) simp
  also have "\<dots> = toFixed1_Number (Fin 25)"
    by (simp only: div_250 p m)
  also have "\<dots> = fl 25"
    by (rule toFixed1_small) (simp_all add: round_tenth_def)
  finally show ?thesis by (simp only: fl_25)
qed

lemma clamped_23_of_80:
  "Math_max (Fin 0) (Math_min (Fin 100) (js_mul (js_div (Fin 23) (Fin 80)) (Fin 100)))
     = Fin (8092405580431359 / 2 ^ 48)"
proof -
  have m: "Math_max (Fin 0) (Math_min (Fin 100) (Fin (8092405580431359 / 2 ^ 48)))
          = Fin (8092405580431359 / 2 ^ 48)"
    by (simp add: Math_max_def Math_min_def)
  show ?thesis by (simp only: div_23_80 mul_23_80 m)
qed

lemma clamped_250_of_1000:
  "Math_max (Fin 0) (Math_min (Fin 100) (js_mul (js_div (Fin 250) (Fin 1000)) (Fin 100)))
     = Fin 25"
proof -
  have p: "js_mul (Fin (1 / 4)) (Fin 100) = Fin 25" using fl_25 by simp
  have m: "Math_max (Fin 0) (Math_min (Fin 100) (Fin 25)) = Fin 25"
    by (simp add: Math_max_def Math_min_def)
  show ?thesis by (simp only: div_250 p m)
qed

text \<open>
  The run of 7995999999999999 of 7999999999999999: the exact percentage is below 99.95,
  the quotient and the product as doubles give the double nearest to 99.95, which is
  above it, and the progress is 100.
\<close>

lemma div_near_full:
  "js_div (Fin 7995999999999999) (Fin 7999999999999999) = Fin (9002695655113622 / 2 ^ 53)"
proof -
  have "fl (7995999999999999 / 7999999999999999)
          = Fin (of_int 9002695655113622 * 2 powr of_int (- 1 - 52))"
    by (rule fl_eval) (simp_all add: powr_minus rne_def)
  then show ?thesis by (simp add: powr_minus field_simps)
qed

lemma mul_near_full:
  "js_mul (Fin (9002695655113622 / 2 ^ 53)) (Fin 100) = Fin (7033355980557517 / 2 ^ 46)"
proof -
  have "fl (9002695655113622 / 2 ^ 53 * 100)
          = Fin (of_int 7033355980557517 * 2 powr of_int (6 - 52))"
    by (rule fl_eval) (simp_all add: powr_minus rne_def)
  then show ?thesis by (simp add: powr_minus field_simps)
qed

lemma progress_near_full:
  "computeProgress coerce (Num (Fin 7995999999999999)) (Num (Fin 7999999999999999)) = Fin 100"
  "(7995999999999999 :: real) / 7999999999999999 * 100 < 1999 / 20"
proof -
  have m: "Math_max (Fin 0) (Math_min (Fin 100) (Fin (7033355980557517 / 2 ^ 46)))
          = Fin (7033355980557517 / 2 ^ 46)"
    by (simp add: Math_max_def Math_min_def)
  have "computeProgress coerce (Num (Fin 7995999999999999)) (Num (Fin 7999999999999999)) =
          toFixed1_Number
            (Math_max (Fin 0)
              (Math_min (Fin 100)
                (js_mul (js_div (Fin 7995999999999999) (Fin 7999999999999999)) (Fin 100))))"
    by (rule computeProgress_unfold) simp
  also have "\<dots> = toFixed1_Number (Fin (7033355980557517 / 2 ^ 46))"
    by (simp only: div_near_full mul_near_full m)
  also have "\<dots> = fl 100"
    by (rule toFixed1_small) (simp_all add: round_tenth_def)
  finally show "computeProgress coerce (Num (Fin 7995999999999999))
      (Num (Fin 7999999999999999)) = Fin 100"
    by (simp only: fl_100)
  show "(7995999999999999 :: real) / 7999999999999999 * 100 < 1999 / 20" by simp
qed

text \<open>
  The run of 23 of 80: the exact percentage is 28.75, which would round to 28.8; the
  product as a double is below 28.75 and the progress is the double of 28.7.
\<close>

lemma progress_23_of_80_exact:
  "round_tenth (clamp (23 / 80 * 100) 0 100) = 288 / 10"
  "(8092405580431359 :: real) / 2 ^ 48 < 23 / 80 * 100"
  "fl (287 / 10) \<noteq> fl (288 / 10)"
proof -
  show "round_tenth (clamp (23 / 80 * 100) 0 100) = 288 / 10"
    by (simp add: clamp_def round_tenth_def)
  show "(8092405580431359 :: real) / 2 ^ 48 < 23 / 80 * 100" by simp
  have "fl (288 / 10) = Fin (of_int 8106479329266893 * 2 powr of_int (4 - 52))"
    by (rule fl_eval) (simp_all add: powr_minus rne_def)
  then show "fl (287 / 10) \<noteq> fl (288 / 10)"
    by (simp add: fl_287 powr_minus field_simps)
qed

text \<open>
  Claim C6, amended. For a goal with numbers \<open>current\<close> and \<open>target\<close> and \<open>target > 0\<close>,
  the code computes in double arithmetic the quotient \<open>current / target\<close> (the double
  nearest to the exact quotient), its product with 100, and clamps the product to
  \<open>[0, 100]\<close>; the progress is the double nearest to that clamped percentage rounded
  to one decimal. The progress lies in \<open>[0, 100]\<close>, and it is 100 exactly when the
  clamped percentage as computed is at least 99.95: so whenever \<open>current \<ge> target\<close>,
  and also just below the target. When \<open>target \<le> 0\<close> the progress is 0; an absent
  \<open>current\<close> counts as 0 and an absent \<open>target\<close> gives 0.
\<close>

theorem progress_pct:
  "(0 < t \<longrightarrow>
      (\<exists>x. Math_max (Fin 0) (Math_min (Fin 100) (js_mul (js_div (Fin c) (Fin t)) (Fin 100)))
             = Fin x
           \<and> 0 \<le> x \<and> x \<le> 100
           \<and> (\<forall>z. js_mul (js_div (Fin c) (Fin t)) (Fin 100) = Fin z \<longrightarrow> x = clamp z 0 100)
           \<and> js_div (Fin c) (Fin t) = fl (c / t)
           \<and> computeProgress coerce (Num (Fin c)) (Num (Fin t)) = fl (round_tenth x)
           \<and> (computeProgress coerce (Num (Fin c)) (Num (Fin t)) = Fin 100
                \<longleftrightarrow> 1999 / 20 \<le> x))
      \<and> (\<exists>p. computeProgress coerce (Num (Fin c)) (Num (Fin t)) = Fin p \<and> 0 \<le> p \<and> p \<le> 100)
      \<and> (t \<le> c \<longrightarrow> computeProgress coerce (Num (Fin c)) (Num (Fin t)) = Fin 100))
   \<and> (t \<le> 0 \<longrightarrow> computeProgress coerce (Num (Fin c)) (Num (Fin t)) = Fin 0)
   \<and> computeProgress coerce Undefined target = computeProgress coerce (Num (Fin 0)) target
   \<and> computeProgress coerce Null target = computeProgress coerce (Num (Fin 0)) target
   \<and> computeProgress coerce current Undefined = Fin 0
   \<and> computeProgress coerce current Null = Fin 0"
proof (intro conjI impI)
  assume t: "0 < t"
  let ?p = "js_mul (js_div (Fin c) (Fin t)) (Fin 100)"
  have "?p \<noteq> NaN"
    using t by (intro times_100_not_NaN div_not_NaN) simp
  from clamped_percentage [OF this]
  obtain x where x: "Math_max (Fin 0) (Math_min (Fin 100) ?p) = Fin x" "0 \<le> x" "x \<le> 100"
    "\<forall>z. ?p = Fin z \<longrightarrow> x = clamp z 0 100"
    by blast
  have cp: "computeProgress coerce (Num (Fin c)) (Num (Fin t)) = fl (round_tenth x)"
    using x(2,3) by (simp only: computeProgress_unfold [OF t] x(1)) simp
  have d: "js_div (Fin c) (Fin t) = fl (c / t)" using t by simp
  show "\<exists>x. Math_max (Fin 0) (Math_min (Fin 100) ?p) = Fin x
           \<and> 0 \<le> x \<and> x \<le> 100
           \<and> (\<forall>z. ?p = Fin z \<longrightarrow> x = clamp z 0 100)
           \<and> js_div (Fin c) (Fin t) = fl (c / t)
           \<and> computeProgress coerce (Num (Fin c)) (Num (Fin t)) = fl (round_tenth x)
           \<and> (computeProgress coerce (Num (Fin c)) (Num (Fin t)) = Fin 100
                \<longleftrightarrow> 1999 / 20 \<le> x)"
    using x d cp fl_round_tenth(2) [OF x(2,3)] by (intro exI [of _ x]) simp
  show "\<exists>p. computeProgress coerce (Num (Fin c)) (Num (Fin t)) = Fin p \<and> 0 \<le> p \<and> p \<le> 100"
    using fl_round_tenth(1) [OF x(2,3)] by (simp only: cp)
  show "computeProgress coerce (Num (Fin c)) (Num (Fin t)) = Fin 100" if "t \<le> c"
  proof -
    have "x = 100" using full_when_reached [OF t that] x(1) by simp
    then show ?thesis using fl_100 by (simp add: cp round_tenth_def)
  qed
next
  assume "t \<le> 0"
  then show "computeProgress coerce (Num (Fin c)) (Num (Fin t)) = Fin 0"
    by (rule computeProgress_nonpositive)
next
  show "computeProgress coerce Undefined target = computeProgress coerce (Num (Fin 0)) target"
    "computeProgress coerce Null target = computeProgress coerce (Num (Fin 0)) target"
    by (simp_all add: computeProgress_def default_to_def js_or_def)
  show "computeProgress coerce current Undefined = Fin 0"
    "computeProgress coerce current Null = Fin 0"
    by (simp_all add: computeProgress_def default_to_def js_or_def js_le_def)
qed

theorem progress_pct_witness:
  "computeProgress (\<lambda>v. NaN) (Num (Fin 250)) (Num (Fin 1000)) = Fin 25
   \<and> computeProgress (\<lambda>v. NaN) (Num (Fin 1200)) (Num (Fin 1000)) = Fin 100
   \<and> computeProgress (\<lambda>v. NaN) (Num (Fin 250)) (Num (Fin 0)) = Fin 0
   \<and> computeProgress (\<lambda>v. NaN) (Num (Fin 23)) (Num (Fin 80)) = fl (287 / 10)
   \<and> computeProgress (\<lambda>v. NaN) (Num (Fin 23)) (Num (Fin 80)) \<noteq> Fin 100"
proof -
  note a = progress_pct [where c = 250 and t = 1000 and coerce = "\<lambda>v. NaN",
             THEN conjunct1, rule_format, THEN conjunct1]
  note b = progress_pct [where c = 1200 and t = 1000 and coerce = "\<lambda>v. NaN",
             THEN conjunct1, rule_format, THEN conjunct2, THEN conjunct2, rule_format]
  note z = progress_pct [where c = 250 and t = 0 and coerce = "\<lambda>v. NaN",
             THEN conjunct2, THEN conjunct1, rule_format]
  note d = progress_pct [where c = 23 and t = 80 and coerce = "\<lambda>v. NaN",
             THEN conjunct1, rule_format, THEN conjunct1]
  have pos: "(0 :: real) < 1000" "(1000 :: real) \<le> 1200" "(0 :: real) \<le> 0" "(0 :: real) < 80"
    by simp_all
  from a [OF pos(1)] obtain x where x:
    "Math_max (Fin 0) (Math_min (Fin 100) (js_mul (js_div (Fin 250) (Fin 1000)) (Fin 100))) = Fin x
      \<and> 0 \<le> x \<and> x \<le> 100
      \<and> (\<forall>z. js_mul (js_div (Fin 250) (Fin 1000)) (Fin 100) = Fin z \<longrightarrow> x = clamp z 0 100)
      \<and> js_div (Fin 250) (Fin 1000) = fl (250 / 1000)
      \<and> computeProgress (\<lambda>v. NaN) (Num (Fin 250)) (Num (Fin 1000)) = fl (round_tenth x)
      \<and> (computeProgress (\<lambda>v. NaN) (Num (Fin 250)) (Num (Fin 1000)) = Fin 100 \<longleftrightarrow> 1999 / 20 \<le> x)" ..
  have "Fin 25 = Fin x"
    using x [THEN conjunct1] by (simp only: clamped_250_of_1000)
  then have e: "x = 25" by simp
  have r: "round_tenth 25 = 25" by (simp add: round_tenth_def)
  have 1: "computeProgress (\<lambda>v. NaN) (Num (Fin 250)) (Num (Fin 1000)) = Fin 25"
    using x [THEN conjunct2, THEN conjunct2, THEN conjunct2, THEN conjunct2, THEN conjunct2, THEN conjunct1] by (simp only: e r fl_25)
  have 2: "computeProgress (\<lambda>v. NaN) (Num (Fin 1200)) (Num (Fin 1000)) = Fin 100"
    by (rule b [OF pos(1) pos(2)])
  have 3: "computeProgress (\<lambda>v. NaN) (Num (Fin 250)) (Num (Fin 0)) = Fin 0"
    by (rule z [OF pos(3)])
  from d [OF pos(4)] obtain x where y:
    "Math_max (Fin 0) (Math_min (Fin 100) (js_mul (js_div (Fin 23) (Fin 80)) (Fin 100))) = Fin x
      \<and> 0 \<le> x \<and> x \<le> 100
      \<and> (\<forall>z. js_mul (js_div (Fin 23) (Fin 80)) (Fin 100) = Fin z \<longrightarrow> x = clamp z 0 100)
      \<and> js_div (Fin 23) (Fin 80) = fl (23 / 80)
      \<and> computeProgress (\<lambda>v. NaN) (Num (Fin 23)) (Num (Fin 80)) = fl (round_tenth x)
      \<and> (computeProgress (\<lambda>v. NaN) (Num (Fin 23)) (Num (Fin 80)) = Fin 100 \<longleftrightarrow> 1999 / 20 \<le> x)" ..
  have "Fin (8092405580431359 / 2 ^ 48) = Fin x"
    using y [THEN conjunct1] by (simp only: clamped_23_of_80)
  then have e': "x = 8092405580431359 / 2 ^ 48" by (simp only: jsnum.inject)
  have r': "round_tenth (8092405580431359 / 2 ^ 48) = 287 / 10"
    by (simp add: round_tenth_def)
  have 4: "computeProgress (\<lambda>v. NaN) (Num (Fin 23)) (Num (Fin 80)) = fl (287 / 10)"
    using y [THEN conjunct2, THEN conjunct2, THEN conjunct2, THEN conjunct2, THEN conjunct2, THEN conjunct1] by (simp only: e' r')
  have n: "\<not> (1999 / 20 :: real) \<le> 8092405580431359 / 2 ^ 48" by simp
  have 5: "computeProgress (\<lambda>v. NaN) (Num (Fin 23)) (Num (Fin 80)) \<noteq> Fin 100"
    using y [THEN conjunct2, THEN conjunct2, THEN conjunct2, THEN conjunct2, THEN conjunct2, THEN conjunct2] n by (simp only: e') blast
  from 1 2 3 4 5 show ?thesis by (intro conjI)
qed

text \<open>
  The claim as stated fails in its last part: at 9999 of 10000 the computed percentage
  99.99 is rounded to 100.0 while the target is not reached.
\<close>

theorem progress_full_before_target:
  "computeProgress (\<lambda>v. NaN) (Num (Fin 9999)) (Num (Fin 10000)) = Fin 100
   \<and> \<not> (10000 :: real) \<le> 9999"
proof -
  have m: "Math_max (Fin 0) (Math_min (Fin 100) (Fin (7036170730324623 / 2 ^ 46)))
          = Fin (7036170730324623 / 2 ^ 46)"
    by (simp add: Math_max_def Math_min_def)
  have "computeProgress (\<lambda>v. NaN) (Num (Fin 9999)) (Num (Fin 10000)) =
          toFixed1_Number
            (Math_max (Fin 0)
              (Math_min (Fin 100) (js_mul (js_div (Fin 9999) (Fin 10000)) (Fin 100))))"
    by (rule computeProgress_unfold) simp
  also have "\<dots> = toFixed1_Number (Fin (7036170730324623 / 2 ^ 46))"
    by (simp only: div_9999 mul_9999 m)
  also have "\<dots> = fl 100"
    by (rule toFixed1_small) (simp_all add: round_tenth_def)
  finally show ?thesis by (simp only: fl_100) simp
qed

subsection \<open>C8: the join of goals and plan\<close>

lemma Map_get_set:
  "Map_get (Map_set m k' v) k = (if same_value_zero k' k then Some v else Map_get m k)"
proof (induction m)
  case Nil
  show ?case by simp
next
  case (Cons e m)
  obtain k0 v0 where e: "e = (k0, v0)" by (cases e)
  show ?case
  proof (cases "same_value_zero k0 k'")
    case True
    then have "k0 = k'" by (simp add: same_value_zero_def)
    with True show ?thesis by (simp add: e)
  next
    case False
    have "\<not> same_value_zero k0 k" if "same_value_zero k' k"
      using that False by (auto simp: same_value_zero_def)
    with False show ?thesis by (simp add: e Cons.IH)
  qed
qed

lemma find_append_last:
  "List.find P (xs @ [x]) =
     (case List.find P xs of Some y \<Rightarrow> Some y | None \<Rightarrow> if P x then Some x else None)"
  by (induction xs) simp_all

lemma Map_get_foldl:
  "Map_get (foldl (\<lambda>m g. Map_set m (p_id g) g) m0 items) k =
     (case List.find (\<lambda>p. same_value_zero (p_id p) k) (rev items) of
        Some p \<Rightarrow> Some p | None \<Rightarrow> Map_get m0 k)"
proof (induction items arbitrary: m0)
  case Nil
  show ?case by simp
next
  case (Cons x xs)
  show ?case
    by (simp add: Cons.IH Map_get_set find_append_last split: option.splits)
qed

lemma planById_get:
  "Map_get (planById items) k = List.find (\<lambda>p. same_value_zero (p_id p) k) (rev items)"
  by (simp add: planById_def Map_get_foldl split: option.splits)

lemma goalsWithPlan_map:
  "goalsWithPlan gs payload =
     map (\<lambda>g. goal.extend g
            \<lparr>plan = List.find (\<lambda>p. same_value_zero (p_id p) (g_id g))
                      (rev (planGoals_of payload))\<rparr>) gs"
  by (simp add: goalsWithPlan_def planById_get)

lemma truncate_extend: "goal.truncate (goal.extend g \<lparr>plan = x\<rparr>) = g"
  by (simp add: goal.truncate_def goal.extend_def)

lemma plan_extend: "plan (goal.extend g \<lparr>plan = x\<rparr>) = x" "g_id (goal.extend g \<lparr>plan = x\<rparr>) = g_id g"
  by (simp_all add: goal.extend_def)

lemma find_SomeD: "List.find P xs = Some x \<Longrightarrow> x \<in> set xs \<and> P x"
  by (induction xs) (auto split: if_splits)

lemma find_distinct:
  assumes "distinct (map f xs)" "x \<in> set xs" "P x" "\<And>y. P y \<Longrightarrow> f y = k"
  shows "List.find P xs = Some x"
  using assms
proof (induction xs)
  case Nil
  then show ?case by simp
next
  case (Cons a xs)
  show ?case
  proof (cases "a = x")
    case True
    with Cons.prems show ?thesis by simp
  next
    case False
    with Cons.prems have x: "x \<in> set xs" by simp
    have "\<not> P a"
    proof
      assume "P a"
      then have "f a = f x" using Cons.prems(3,4) by simp
      moreover have "f a \<notin> f ` set xs" using Cons.prems(1) by simp
      ultimately show False using x by auto
    qed
    moreover have "List.find P xs = Some x"
      using Cons.prems x by (intro Cons.IH) simp_all
    ultimately show ?thesis by simp
  qed
qed

text \<open>
  Claim C8. For every list of goals and every plan payload with the items \<open>items\<close>, the
  join keeps every goal, in order, and gives each a \<open>plan\<close>: the last item of the payload
  whose id is the same \<open>Map\<close> key as the goal's id, and \<open>null\<close> when there is none. So the
  \<open>plan\<close> is \<open>null\<close> exactly when no item of the payload has the goal's id, it is never
  anything but an item of the payload with that id, and where the ids of the payload
  are distinct it is the item with that id. A payload that is absent gives every goal
  \<open>null\<close>. The goal \<open>g1\<close> with 250 of 1000 and no item of its id gets \<open>null\<close> and the
  progress 25.0.
\<close>

theorem goal_plan_join:
  "map goal.truncate (goalsWithPlan gs (Some items)) = gs
   \<and> map plan (goalsWithPlan gs (Some items)) =
       map (\<lambda>g. List.find (\<lambda>p. same_value_zero (p_id p) (g_id g)) (rev items)) gs
   \<and> (\<forall>gp \<in> set (goalsWithPlan gs (Some items)).
        (plan gp = None \<longleftrightarrow> (\<forall>p \<in> set items. \<not> same_value_zero (p_id p) (g_id gp)))
        \<and> (\<forall>p. plan gp = Some p \<longrightarrow> p \<in> set items \<and> same_value_zero (p_id p) (g_id gp))
        \<and> (distinct (map p_id items) \<longrightarrow>
             (\<forall>p \<in> set items. same_value_zero (p_id p) (g_id gp) \<longrightarrow> plan gp = Some p)))
   \<and> map goal.truncate (goalsWithPlan gs None) = gs
   \<and> map plan (goalsWithPlan gs None) = map (\<lambda>g. None) gs
   \<and> goalsWithPlan [g1] (Some [g2_plan]) = [goal.extend g1 \<lparr>plan = None\<rparr>]
   \<and> computeProgress coerce (current_amount g1) (target_amount g1) = Fin 25"
proof (intro conjI ballI allI impI)
  show "map goal.truncate (goalsWithPlan gs (Some items)) = gs"
    by (simp add: goalsWithPlan_map comp_def truncate_extend)
  show "map plan (goalsWithPlan gs (Some items)) =
       map (\<lambda>g. List.find (\<lambda>p. same_value_zero (p_id p) (g_id g)) (rev items)) gs"
    by (simp add: goalsWithPlan_map comp_def plan_extend planGoals_of_def)
  show "map goal.truncate (goalsWithPlan gs None) = gs"
    by (simp add: goalsWithPlan_map comp_def truncate_extend)
  show "map plan (goalsWithPlan gs None) = map (\<lambda>g. None) gs"
    by (simp add: goalsWithPlan_map comp_def plan_extend planGoals_of_def)
next
  fix gp assume "gp \<in> set (goalsWithPlan gs (Some items))"
  then obtain g where gp: "gp = goal.extend g
      \<lparr>plan = List.find (\<lambda>p. same_value_zero (p_id p) (g_id g)) (rev items)\<rparr>"
    by (auto simp: goalsWithPlan_map planGoals_of_def)
  have pl: "plan gp = List.find (\<lambda>p. same_value_zero (p_id p) (g_id g)) (rev items)"
    and id: "g_id gp = g_id g"
    by (simp_all add: gp plan_extend)
  show "plan gp = None \<longleftrightarrow> (\<forall>p \<in> set items. \<not> same_value_zero (p_id p) (g_id gp))"
    by (auto simp: pl id find_None_iff)
  show "p \<in> set items" "same_value_zero (p_id p) (g_id gp)" if "plan gp = Some p" for p
    using that find_SomeD [of "\<lambda>p. same_value_zero (p_id p) (g_id g)" "rev items" p]
    by (simp_all add: pl id)
  show "plan gp = Some p"
    if d: "distinct (map p_id items)" and p: "p \<in> set items"
      and s: "same_value_zero (p_id p) (g_id gp)" for p
  proof -
    have "List.find (\<lambda>p. same_value_zero (p_id p) (g_id g)) (rev items) = Some p"
    proof (rule find_distinct [where f = p_id and k = "g_id g"])
      show "distinct (map p_id (rev items))" using d by (simp add: rev_map [symmetric])
      show "p \<in> set (rev items)" using p by simp
      show "same_value_zero (p_id p) (g_id g)" using s by (simp only: id)
      show "p_id y = g_id g" if "same_value_zero (p_id y) (g_id g)" for y
        using that by (simp add: same_value_zero_def)
    qed
    then show ?thesis by (simp only: pl)
  qed
next
  show "goalsWithPlan [g1] (Some [g2_plan]) = [goal.extend g1 \<lparr>plan = None\<rparr>]"
    by (simp add: goalsWithPlan_map planGoals_of_def same_value_zero_def g1_def g2_plan_def)
  show "computeProgress coerce (current_amount g1) (target_amount g1) = Fin 25"
    by (simp only: g1_def goal.simps progress_250_of_1000)
qed

theorem goal_plan_join_witness:
  "map plan (goalsWithPlan [g1, g2] (Some [g3_plan, g2_plan])) = [None, Some g2_plan]
   \<and> map goal.truncate (goalsWithPlan [g1, g2] (Some [g3_plan, g2_plan])) = [g1, g2]
   \<and> map plan (goalsWithPlan [g2, g4] (Some [g2_plan_old, g4_plan, g2_plan]))
       = [Some g2_plan, None]"
proof -
  let ?items = "[g3_plan, g2_plan]"
  let ?join = "goalsWithPlan [g1, g2] (Some ?items)"
  let ?a = "goal.extend g1 \<lparr>plan = Map_get (planById ?items) (g_id g1)\<rparr>"
  let ?b = "goal.extend g2 \<lparr>plan = Map_get (planById ?items) (g_id g2)\<rparr>"
  note t = goal_plan_join [where gs = "[g1, g2]" and items = ?items]
  note u = goal_plan_join [where gs = "[g2, g4]" and items = "[g2_plan_old, g4_plan, g2_plan]",
             THEN conjunct2, THEN conjunct1]
  have j: "?join = [?a, ?b]"
    by (simp add: goalsWithPlan_def planGoals_of_def)
  have ids: "g_id ?a = Str ''g1''" "g_id ?b = Str ''g2''" "p_id g2_plan = Str ''g2''"
    "p_id g3_plan = Str ''g3''" "p_id g2_plan_old = Str ''g2''"
    "g_id g2 = Str ''g2''" "g_id g4 = Obj [(''n'', Num (Fin 4))]"
    "p_id g4_plan = Obj [(''n'', Num (Fin 4))]"
    by (simp_all add: goal.extend_def g1_def g2_def g4_def g2_plan_def g3_plan_def
          g2_plan_old_def g4_plan_def)
  have "?a \<in> set ?join" by (simp add: j)
  from t [THEN conjunct2, THEN conjunct2, THEN conjunct1, rule_format, OF this, THEN conjunct1]
  have a: "plan ?a = None" by (simp add: ids(1-5) same_value_zero_def)
  have "?b \<in> set ?join" by (simp add: j)
  from t [THEN conjunct2, THEN conjunct2, THEN conjunct1, rule_format, OF this,
          THEN conjunct2, THEN conjunct2, rule_format, of g2_plan]
  have b: "plan ?b = Some g2_plan" by (simp add: ids(1-5) same_value_zero_def)
  have c: "map plan (goalsWithPlan [g2, g4] (Some [g2_plan_old, g4_plan, g2_plan]))
       = [Some g2_plan, None]"
    by (simp add: u ids same_value_zero_def)
  from t [THEN conjunct1] a b c show ?thesis by (simp add: j)
qed

subsection \<open>C9: the placeholder of the formatters\<close>

text \<open>
  Where the test of the claim is made, it holds: a value that is not a number, or is
  \<open>NaN\<close>, prints as the placeholder of the page.
\<close>

lemma placeholder_for_non_numbers:
  assumes "\<not> typeof_number n \<or> n = Num NaN"
  shows "Goals_formatCurrency fh n currency = em_dash"
    and "Budgets_formatCurrency fh n currency = em_dash"
    and "Budgets_formatPercent n = Str em_dash"
    and "Dashboard_formatPercent n = Str em_dash"
    and "Transactions_formatCurrency fh n currency = Transactions_placeholder"
  using assms
  by (cases n; auto simp: Goals_formatCurrency_def Budgets_formatCurrency_def
        Budgets_formatPercent_def Dashboard_formatPercent_def Transactions_formatCurrency_def)+

lemma Dashboard_placeholder_by_type:
  "\<not> typeof_number n \<Longrightarrow> Dashboard_formatCurrency fh n currency = em_dash"
  by (cases n) (simp_all add: Dashboard_formatCurrency_def)

lemma Transactions_placeholder_differs: "Transactions_placeholder \<noteq> em_dash"
  by (simp add: Transactions_placeholder_def em_dash_def)

text \<open>
  The \<open>formatCurrency\<close> of the Dashboard tests the type alone, so \<open>NaN\<close> would go to the
  host's formatter. The page calls it with fields of a parsed response body only, and
  such a body holds no \<open>NaN\<close>.
\<close>

lemma Dashboard_formatCurrency_of_NaN:
  "Dashboard_formatCurrency fh (Num NaN) currency =
     (case intl_currency fh currency NaN of Some t \<Rightarrow> t | None \<Rightarrow> ''$NaN'')"
  by (simp add: Dashboard_formatCurrency_def currency_or_dollars_def split: option.splits)

lemma decimal_digit: "n < 10 \<Longrightarrow> decimal n = [digit_char n]"
  by (simp add: decimal.simps)

lemma fixed_point_zero: "fixed_point 2 0 = ''0.00''"
  by (simp add: fixed_point_def decimal_digit digit_char_def)

lemma fixed_point_one: "fixed_point 2 1 = ''1.00''"
proof -
  have "decimal 100 = ''100''"
    by (simp add: decimal.simps [of 100] decimal.simps [of 10] decimal_digit digit_char_def)
  then show ?thesis by (simp add: fixed_point_def)
qed

lemma dollars_of_zero:
  "currency_or_dollars fh currency (Fin 0) =
     (case intl_currency fh currency (Fin 0) of Some t \<Rightarrow> t | None \<Rightarrow> ''$0.00'')"
  by (simp add: currency_or_dollars_def fixed_point_zero split: option.splits)

text \<open>
  The \<open>formatCurrency\<close> of the Insights page converts with \<open>Number\<close> before it tests: \<open>false\<close>
  and \<open>true\<close> print as the numbers 0 and 1, and \<open>undefined\<close> as the dash.
\<close>

lemma Insights_formatCurrency_others:
  "Insights_formatCurrency fh coerce (Bool False) currency =
     (case intl_currency fh currency (Fin 0) of Some t \<Rightarrow> t | None \<Rightarrow> ''$0.00'')"
  "Insights_formatCurrency fh coerce (Bool True) currency =
     (case intl_currency fh currency (Fin 1) of Some t \<Rightarrow> t | None \<Rightarrow> ''$1.00'')"
  "Insights_formatCurrency fh coerce Undefined currency = em_dash"
  "Insights_formatCurrency fh coerce (Num NaN) currency = em_dash"
  by (simp_all add: Insights_formatCurrency_def currency_or_dollars_def fixed_point_zero
        fixed_point_one split: option.splits)

text \<open>
  Claim C9: on every page, a value that is not a number or is absent prints as the em
  dash, never as \<open>0\<close>. The \<open>formatCurrency\<close> of the Insights page, called with the
  \<open>amount\<close> of a category as the response body gives it, converts the value with
  \<open>Number\<close> before it tests for \<open>NaN\<close>: at \<open>null\<close> it returns what it returns for the
  number 0, the host's print of 0, and \<open>$0.00\<close> when the host's formatter throws. The
  \<open>formatCurrency\<close> of the Goals page and of the Dashboard return the dash there.
\<close>

theorem Insights_formatCurrency_null:
  "Insights_formatCurrency fh coerce Null currency =
     (case intl_currency fh currency (Fin 0) of Some t \<Rightarrow> t | None \<Rightarrow> ''$0.00'')
   \<and> Insights_formatCurrency fh coerce Null currency =
       Insights_formatCurrency fh coerce (Num (Fin 0)) currency
   \<and> Insights_formatCurrency (fh\<lparr>intl_currency := (\<lambda>c x. None)\<rparr>) coerce Null currency
       = ''$0.00''
   \<and> ''$0.00'' \<noteq> em_dash
   \<and> \<not> typeof_number Null
   \<and> Goals_formatCurrency fh Null currency = em_dash
   \<and> Dashboard_formatCurrency fh Null currency = em_dash"
proof -
  have n: "js_Number coerce Null = Fin 0" "js_Number coerce (Num (Fin 0)) = Fin 0"
    by simp_all
  have i: "Insights_formatCurrency h coerce Null currency = currency_or_dollars h currency (Fin 0)"
    "Insights_formatCurrency h coerce (Num (Fin 0)) currency
       = currency_or_dollars h currency (Fin 0)" for h
    by (simp_all add: Insights_formatCurrency_def)
  have "currency_or_dollars (fh\<lparr>intl_currency := (\<lambda>c x. None)\<rparr>) currency (Fin 0) = ''$0.00''"
    by (simp add: dollars_of_zero)
  moreover have "''$0.00'' \<noteq> em_dash" by (simp add: em_dash_def)
  moreover have "Goals_formatCurrency fh Null currency = em_dash"
    by (simp add: Goals_formatCurrency_def)
  moreover have "Dashboard_formatCurrency fh Null currency = em_dash"
    by (simp add: Dashboard_formatCurrency_def)
  ultimately show ?thesis by (simp add: i dollars_of_zero)
qed

end
